theory Spec2Isabelle
  imports Complex_Main "HOL-Library.Sublist"
begin

section \<open>The interpreter state of the QM9 exploration notebook\<close>

text \<open>
  The notebook \<^verbatim>\<open>examples/qm9/qm9_dataset_exploration.ipynb\<close> is a sequence of Python
  cells. Every cell and every function it defines is embedded as a function from the
  interpreter state to an outcome and the state afterwards. An outcome is a value or an
  exception; the state holds the molecule objects of the chemistry toolkit, the files,
  the notebook's global variables, the registered slider and the list of the external
  calls made so far, each with the exception it raised, if any.
\<close>

datatype exn =
    AttributeError
  | IndexError
  | NameError
  | FileExistsError
  | FileNotFoundError
  | IsADirectoryError
  | NotADirectoryError
  | PermissionError
  | OSError
  | ValueError
  | LibraryError string

text \<open>The external operations the notebook calls, by the name the source calls them.\<close>

datatype api =
    RDLogger_logger
  | Logger_setLevel
  | Logging_basicConfig
  | Get_qm9_filepath
  | Get_qm9_label_names
  | GGNNPreprocessor_new
  | Get_qm9
  | Print
  | GetItem
  | MolFromSmiles
  | ToBinary
  | Chem_Mol
  | Kekulize
  | GetNumConformers
  | Compute2DCoords
  | MolDraw2DSVG
  | DrawMolecule
  | FinishDrawing
  | GetDrawingText
  | SVG_new
  | Np_set_printoptions
  | Interact
  | Os_path_exists
  | Os_mkdir
  | Open_w
  | File_write
  | MolToFile

type_synonym ref = nat
type_synonym path = "string list"

text \<open>
  What a path leads to: a directory, a regular file with its text, or nothing because the
  name is a symbolic link whose target does not exist.
\<close>

datatype node = Dir | File string | Dangling

text \<open>
  One record of the preprocessed dataset: the atom array, the stacked adjacency
  matrices and the label vector. The numbers are carried around and printed, never
  computed with, so the float32 entries are reals.
\<close>

type_synonym features = "int list \<times> real list list list \<times> real list"

text \<open>
  The notebook's global names. A name no cell has assigned yet is \<open>None\<close>; reading it
  raises \<open>NameError\<close>. The name \<open>mol\<close> can be bound to Python's \<open>None\<close>, the result of
  \<^verbatim>\<open>Chem.MolFromSmiles\<close> on a descriptor it cannot parse.
\<close>

record globals =
  dataset_filepath :: "string option"
  label_names :: "string list option"
  dataset :: "features list option"
  dataset_smiles :: "string list option"
  index :: "int option"
  atom :: "int list option"
  adj :: "real list list list option"
  labels :: "real list option"
  smiles :: "string option"
  mol :: "ref option option"
  svg :: "string option"
  dirpath :: "path option"
  save_filepath :: "path option"

record 'm world =
  mols :: "ref \<Rightarrow> 'm"
  next_ref :: ref
  files :: "path \<Rightarrow> node option"
  calls :: "(api \<times> exn option) list"
  vars :: globals
  slider :: "(int \<times> int \<times> int) option"

type_synonym ('a, 'm) py = "'m world \<Rightarrow> (exn + 'a) \<times> 'm world"

definition returnP :: "'a \<Rightarrow> ('a, 'm) py" where
  "returnP x w = (Inr x, w)"

definition raiseP :: "exn \<Rightarrow> ('a, 'm) py" where
  "raiseP e w = (Inl e, w)"

text \<open>Sequencing: an exception of the first statement skips the rest.\<close>

definition bindP :: "('a, 'm) py \<Rightarrow> ('a \<Rightarrow> ('b, 'm) py) \<Rightarrow> ('b, 'm) py" where
  "bindP m k w = (case m w of (Inl e, w') \<Rightarrow> (Inl e, w') | (Inr x, w') \<Rightarrow> k x w')"

text \<open>
  \<^verbatim>\<open>try: m  except: h\<close> with a bare \<^verbatim>\<open>except\<close>: every exception of the body is caught
  and the handler runs in the state the body left.
\<close>

definition try_except :: "('a, 'm) py \<Rightarrow> ('a, 'm) py \<Rightarrow> ('a, 'm) py" where
  "try_except m h w = (case m w of (Inl e, w') \<Rightarrow> h w' | (Inr x, w') \<Rightarrow> (Inr x, w'))"

definition raised :: "exn + 'a \<Rightarrow> exn option" where
  "raised r = (case r of Inl e \<Rightarrow> Some e | Inr x \<Rightarrow> None)"

text \<open>An external call: it runs, and its name and outcome are appended to \<open>calls\<close>.\<close>

definition call :: "api \<Rightarrow> ('a, 'm) py \<Rightarrow> ('a, 'm) py" where
  "call a m w = (case m w of (r, w') \<Rightarrow> (r, w'\<lparr>calls := calls w' @ [(a, raised r)]\<rparr>))"

text \<open>An external call that only computes: the state stays as it is.\<close>

definition pure_call :: "api \<Rightarrow> (exn + 'a) \<Rightarrow> ('a, 'm) py" where
  "pure_call a r = call a (\<lambda>w. (r, w))"

definition getvar :: "(globals \<Rightarrow> 'a option) \<Rightarrow> ('a, 'm) py" where
  "getvar f w = (case f (vars w) of None \<Rightarrow> (Inl NameError, w) | Some x \<Rightarrow> (Inr x, w))"

definition setvars :: "(globals \<Rightarrow> globals) \<Rightarrow> (unit, 'm) py" where
  "setvars f w = (Inr (), w\<lparr>vars := f (vars w)\<rparr>)"

definition default :: "'a \<Rightarrow> 'a option \<Rightarrow> 'a" where
  "default d v = (case v of None \<Rightarrow> d | Some x \<Rightarrow> x)"

section \<open>The external libraries, as the notebook uses them\<close>

text \<open>
  Modelled from the spec: the raw molecule records that the preprocessing interface
  consumes. The dataset utility of \<^verbatim>\<open>chainer_chemistry\<close> that reads them is not among the
  sources; a record is the molecule's textual descriptor and its properties by name.
\<close>

record raw_record =
  descriptor :: string
  property :: "string \<Rightarrow> real"

text \<open>
  RDKit, IPython, ipywidgets and the standard library are not part of the repository:
  their operations are parameters. \<open>'m\<close> is the state of a molecule object, \<open>'d\<close> that of
  a drawer. Every operation can raise. The two operations that work in place give the
  outcome and the state they left the object in, which after an exception need not be
  the one they found. \<open>lib_effect\<close> says, for a call made for its effect only (logging
  setup, \<^verbatim>\<open>print\<close>, print options, \<^verbatim>\<open>interact\<close>), whether it raises in the state it is
  made in: the same operation can return at one time and raise at another.
  \<open>iw_delivers\<close> is the slider of ipywidgets: the values a slider built from
  \<open>(min, max, step)\<close> can hand to its callback; \<open>iw_initial\<close> is the value it starts at.
  \<open>cc_qm9_records\<close> and \<open>cc_preprocess\<close> are the inputs of the preprocessing interface: the
  records of the dataset file and the preprocessor policy. \<open>os_fault\<close> is the operating
  system refusing an operation on a path for a reason the files of the model do not
  show (permissions, a full disk), with the exception it raises; \<open>os_written\<close> is how many
  characters of a text reached the file when its write was refused.
\<close>

record ('m, 'd) libs =
  rd_MolFromSmiles :: "string \<Rightarrow> exn + 'm option"
  rd_ToBinary :: "'m \<Rightarrow> exn + string"
  rd_Mol :: "string \<Rightarrow> exn + 'm"
  rd_Kekulize :: "'m \<Rightarrow> (exn + unit) \<times> 'm"
  rd_GetNumConformers :: "'m \<Rightarrow> exn + nat"
  rd_Compute2DCoords :: "'m \<Rightarrow> (exn + unit) \<times> 'm"
  rd_MolDraw2DSVG :: "int \<Rightarrow> int \<Rightarrow> exn + 'd"
  rd_DrawMolecule :: "'d \<Rightarrow> 'm \<Rightarrow> exn + 'd"
  rd_FinishDrawing :: "'d \<Rightarrow> exn + 'd"
  rd_GetDrawingText :: "'d \<Rightarrow> exn + string"
  rd_MolToFile :: "'m option \<Rightarrow> int \<times> int \<Rightarrow> exn + string"
  ip_SVG :: "string \<Rightarrow> exn + string"
  iw_delivers :: "int \<times> int \<times> int \<Rightarrow> int \<Rightarrow> bool"
  iw_initial :: "int \<times> int \<times> int \<Rightarrow> int"
  cc_get_qm9_filepath :: "exn + string"
  cc_qm9_records :: "exn + raw_record list"
  cc_preprocess :: "raw_record \<Rightarrow> exn + int list \<times> real list list list"
  lib_effect :: "api \<Rightarrow> 'm world \<Rightarrow> exn option"
  os_fault :: "api \<Rightarrow> path \<Rightarrow> 'm world \<Rightarrow> exn option"
  os_written :: "path \<Rightarrow> 'm world \<Rightarrow> nat"

definition effect_call :: "('m, 'd) libs \<Rightarrow> api \<Rightarrow> (unit, 'm) py" where
  "effect_call L a =
     call a (\<lambda>w. (case lib_effect L a w of None \<Rightarrow> Inr () | Some e \<Rightarrow> Inl e, w))"

text \<open>A new molecule object: the next free reference.\<close>

definition new_mol :: "'m \<Rightarrow> (ref, 'm) py" where
  "new_mol m w = (Inr (next_ref w), w\<lparr>mols := (mols w)(next_ref w := m), next_ref := Suc (next_ref w)\<rparr>)"

text \<open>\<^verbatim>\<open>mol.ToBinary()\<close>: on Python's \<open>None\<close> the attribute lookup raises.\<close>

definition mol_ToBinary :: "('m, 'd) libs \<Rightarrow> ref option \<Rightarrow> (string, 'm) py" where
  "mol_ToBinary L v =
     call ToBinary (\<lambda>w. case v of
         None \<Rightarrow> (Inl AttributeError, w)
       | Some a \<Rightarrow> (rd_ToBinary L (mols w a), w))"

definition Chem_Mol_of :: "('m, 'd) libs \<Rightarrow> string \<Rightarrow> (ref, 'm) py" where
  "Chem_Mol_of L b =
     call Chem_Mol (\<lambda>w. case rd_Mol L b of
         Inl e \<Rightarrow> (Inl e, w)
       | Inr m \<Rightarrow> new_mol m w)"

definition in_place :: "api \<Rightarrow> ('m \<Rightarrow> (exn + unit) \<times> 'm) \<Rightarrow> ref \<Rightarrow> (unit, 'm) py" where
  "in_place a f mc =
     call a (\<lambda>w. case f (mols w mc) of (r, m') \<Rightarrow> (r, w\<lparr>mols := (mols w)(mc := m')\<rparr>))"

definition Chem_Kekulize :: "('m, 'd) libs \<Rightarrow> ref \<Rightarrow> (unit, 'm) py" where
  "Chem_Kekulize L mc = in_place Kekulize (rd_Kekulize L) mc"

definition mol_GetNumConformers :: "('m, 'd) libs \<Rightarrow> ref \<Rightarrow> (nat, 'm) py" where
  "mol_GetNumConformers L mc = call GetNumConformers (\<lambda>w. (rd_GetNumConformers L (mols w mc), w))"

definition rdDepictor_Compute2DCoords :: "('m, 'd) libs \<Rightarrow> ref \<Rightarrow> (unit, 'm) py" where
  "rdDepictor_Compute2DCoords L mc = in_place Compute2DCoords (rd_Compute2DCoords L) mc"

definition drawer_DrawMolecule :: "('m, 'd) libs \<Rightarrow> 'd \<Rightarrow> ref \<Rightarrow> ('d, 'm) py" where
  "drawer_DrawMolecule L d mc = call DrawMolecule (\<lambda>w. (rd_DrawMolecule L d (mols w mc), w))"

section \<open>Cell 17: moltosvg and render\_svg\<close>

text \<open>
  \<^verbatim>\<open>
  def moltosvg(mol,molSize=(450,150),kekulize=True):
      mc = Chem.Mol(mol.ToBinary())
      if kekulize:
          try:
              Chem.Kekulize(mc)
          except:
              mc = Chem.Mol(mol.ToBinary())
      if not mc.GetNumConformers():
          rdDepictor.Compute2DCoords(mc)
      drawer = rdMolDraw2D.MolDraw2DSVG(molSize[0],molSize[1])
      drawer.DrawMolecule(mc)
      drawer.FinishDrawing()
      svg = drawer.GetDrawingText()
      return svg
  \<close>
  An argument left out is \<open>None\<close> and takes the default of the signature.
\<close>

definition copy_of :: "('m, 'd) libs \<Rightarrow> ref option \<Rightarrow> (ref, 'm) py" where
  "copy_of L v = bindP (mol_ToBinary L v) (Chem_Mol_of L)"

definition draw_svg :: "('m, 'd) libs \<Rightarrow> int \<times> int \<Rightarrow> ref \<Rightarrow> (string, 'm) py" where
  "draw_svg L molSize mc =
     bindP (pure_call MolDraw2DSVG (rd_MolDraw2DSVG L (fst molSize) (snd molSize))) (\<lambda>drawer.
     bindP (drawer_DrawMolecule L drawer mc) (\<lambda>drawer.
     bindP (pure_call FinishDrawing (rd_FinishDrawing L drawer)) (\<lambda>drawer.
     pure_call GetDrawingText (rd_GetDrawingText L drawer))))"

definition moltosvg ::
  "('m, 'd) libs \<Rightarrow> ref option \<Rightarrow> (int \<times> int) option \<Rightarrow> bool option \<Rightarrow> (string, 'm) py" where
  "moltosvg L v molSize kekulize =
     bindP (copy_of L v) (\<lambda>mc.
     bindP (if default True kekulize
            then try_except (bindP (Chem_Kekulize L mc) (\<lambda>_. returnP mc)) (copy_of L v)
            else returnP mc) (\<lambda>mc.
     bindP (mol_GetNumConformers L mc) (\<lambda>n.
     bindP (if n = 0 then rdDepictor_Compute2DCoords L mc else returnP ()) (\<lambda>_.
     draw_svg L (default (450, 150) molSize) mc))))"

text \<open>
  \<^verbatim>\<open>str.replace(old, new)\<close>: every occurrence of \<open>old\<close>, found from the left without
  overlap; an empty \<open>old\<close> matches before every character and at the end.
\<close>

function str_replace :: "string \<Rightarrow> string \<Rightarrow> string \<Rightarrow> string" where
  "str_replace old new s =
     (if old = [] then new @ concat (map (\<lambda>c. c # new) s)
      else if s = [] then []
      else if take (length old) s = old then new @ str_replace old new (drop (length old) s)
      else hd s # str_replace old new (tl s))"
  by pat_completeness auto
termination
  by (relation "measure (\<lambda>(old, new, s). length s)") auto

text \<open>
  \<^verbatim>\<open>
  def render_svg(svg):
      return SVG(svg.replace('svg:',''))
  \<close>
\<close>

definition render_svg :: "('m, 'd) libs \<Rightarrow> string \<Rightarrow> (string, 'm) py" where
  "render_svg L s = pure_call SVG_new (ip_SVG L (str_replace ''svg:'' '''' s))"

section \<open>Indexing, parsing and printing\<close>

text \<open>
  Modelled from the spec: the preprocessed records are "held in an in-memory collection
  indexed by position". \<^verbatim>\<open>NumpyTupleDataset\<close> of \<^verbatim>\<open>chainer_chemistry\<close> is not among the sources;
  indexing it by an integer is taken to be numpy's, which also indexes the array
  \<open>dataset_smiles\<close>: a negative index counts from the end, and an index outside
  \<open>-len .. len - 1\<close> raises \<open>IndexError\<close>.
\<close>

definition item :: "'a list \<Rightarrow> int \<Rightarrow> exn + 'a" where
  "item xs i =
     (if 0 \<le> i \<and> i < int (length xs) then Inr (xs ! nat i)
      else if - int (length xs) \<le> i \<and> i < 0 then Inr (xs ! nat (int (length xs) + i))
      else Inl IndexError)"

definition getitem :: "'a list \<Rightarrow> int \<Rightarrow> ('a, 'm) py" where
  "getitem xs i = pure_call GetItem (item xs i)"

text \<open>\<^verbatim>\<open>Chem.MolFromSmiles(s)\<close>: a new molecule object, or Python's \<open>None\<close>.\<close>

definition Chem_MolFromSmiles :: "('m, 'd) libs \<Rightarrow> string \<Rightarrow> (ref option, 'm) py" where
  "Chem_MolFromSmiles L s =
     call MolFromSmiles (\<lambda>w. case rd_MolFromSmiles L s of
         Inl e \<Rightarrow> (Inl e, w)
       | Inr None \<Rightarrow> (Inr None, w)
       | Inr (Some m) \<Rightarrow> bindP (new_mol m) (\<lambda>a. returnP (Some a)) w)"

definition py_print :: "('m, 'd) libs \<Rightarrow> (unit, 'm) py" where
  "py_print L = effect_call L Print"

text \<open>The decimal digits of an integer, as \<^verbatim>\<open>'{}'.format(i)\<close> writes them.\<close>

function str_nat :: "nat \<Rightarrow> string" where
  "str_nat n =
     (if n < 10 then [char_of (48 + n)] else str_nat (n div 10) @ [char_of (48 + n mod 10)])"
  by pat_completeness auto
termination
  by (relation "measure id") auto

definition str_int :: "int \<Rightarrow> string" where
  "str_int i = (if i < 0 then CHR ''-'' # str_nat (nat (- i)) else str_nat (nat i))"

section \<open>Cell 21: show\_dataset\<close>

text \<open>
  \<^verbatim>\<open>
  def show_dataset(index):
      print('index={}, SMILES={}'.format(index, dataset_smiles[index]))
      atom, adj, labels = dataset[index]
      print('atom', atom)
      print('labels', labels)
      mol = Chem.MolFromSmiles(dataset_smiles[index])
      return render_svg(moltosvg(mol))
  \<close>
  \<open>dataset\<close> and \<open>dataset_smiles\<close> are the notebook's globals; the other names are local.
\<close>

definition show_dataset :: "('m, 'd) libs \<Rightarrow> int \<Rightarrow> (string, 'm) py" where
  "show_dataset L i =
     bindP (getvar dataset_smiles) (\<lambda>ss.
     bindP (getitem ss i) (\<lambda>s.
     bindP (py_print L) (\<lambda>_.
     bindP (getvar dataset) (\<lambda>ds.
     bindP (getitem ds i) (\<lambda>(atom', adj', labels').
     bindP (py_print L) (\<lambda>_.
     bindP (py_print L) (\<lambda>_.
     bindP (getvar dataset_smiles) (\<lambda>ss.
     bindP (getitem ss i) (\<lambda>s.
     bindP (Chem_MolFromSmiles L s) (\<lambda>mol'.
     bindP (moltosvg L mol' None None) (render_svg L)))))))))))"

section \<open>Files\<close>

text \<open>
  A path is its list of components, relative to the working directory, so
  \<^verbatim>\<open>os.path.join(dirpath, name)\<close> appends one component. A name can be created in a
  directory that exists; the working directory (the empty path) always does. A name
  under a regular file is refused with \<open>NotADirectoryError\<close>, a name under nothing with
  \<open>FileNotFoundError\<close>.
\<close>

definition parent_exists :: "(path \<Rightarrow> node option) \<Rightarrow> path \<Rightarrow> bool" where
  "parent_exists fs p = (butlast p = [] \<or> fs (butlast p) = Some Dir)"

definition parent_is_file :: "(path \<Rightarrow> node option) \<Rightarrow> path \<Rightarrow> bool" where
  "parent_is_file fs p =
     (butlast p \<noteq> [] \<and> (case fs (butlast p) of Some (File c) \<Rightarrow> True | _ \<Rightarrow> False))"

definition parent_error :: "(path \<Rightarrow> node option) \<Rightarrow> path \<Rightarrow> exn option" where
  "parent_error fs p =
     (if parent_is_file fs p then Some NotADirectoryError
      else if \<not> parent_exists fs p then Some FileNotFoundError
      else None)"

text \<open>
  \<^verbatim>\<open>os.path.exists(p)\<close> follows symbolic links: it is true of a directory and of a regular
  file, and false of a name that is absent or is a link to nothing. It does not raise.
\<close>

definition exists_at :: "(path \<Rightarrow> node option) \<Rightarrow> path \<Rightarrow> bool" where
  "exists_at fs p = (case fs p of Some Dir \<Rightarrow> True | Some (File c) \<Rightarrow> True | _ \<Rightarrow> False)"

definition os_path_exists :: "path \<Rightarrow> (bool, 'm) py" where
  "os_path_exists p = call Os_path_exists (\<lambda>w. (Inr (exists_at (files w) p), w))"

text \<open>
  \<^verbatim>\<open>os.mkdir(p)\<close> does not follow a link at \<open>p\<close>: any name that is there, a link to nothing
  included, is refused with \<open>FileExistsError\<close>.
\<close>

definition mkdir :: "(path \<Rightarrow> node option) \<Rightarrow> path \<Rightarrow> exn + (path \<Rightarrow> node option)" where
  "mkdir fs p =
     (case parent_error fs p of
        Some e \<Rightarrow> Inl e
      | None \<Rightarrow> if fs p \<noteq> None then Inl FileExistsError else Inr (fs(p \<mapsto> Dir)))"

definition os_mkdir :: "('m, 'd) libs \<Rightarrow> path \<Rightarrow> (unit, 'm) py" where
  "os_mkdir L p =
     call Os_mkdir (\<lambda>w. case os_fault L Os_mkdir p w of
         Some e \<Rightarrow> (Inl e, w)
       | None \<Rightarrow> (case mkdir (files w) p of
             Inl e \<Rightarrow> (Inl e, w)
           | Inr fs \<Rightarrow> (Inr (), w\<lparr>files := fs\<rparr>)))"

text \<open>
  Creating or truncating a file for writing, as \<^verbatim>\<open>open(p, "w")\<close> does. Through a link to
  nothing the target is created, and the path leads to the new file.
\<close>

definition create :: "(path \<Rightarrow> node option) \<Rightarrow> path \<Rightarrow> string \<Rightarrow> exn + (path \<Rightarrow> node option)" where
  "create fs p s =
     (case parent_error fs p of
        Some e \<Rightarrow> Inl e
      | None \<Rightarrow> if fs p = Some Dir then Inl IsADirectoryError else Inr (fs(p \<mapsto> File s)))"

definition open_w :: "('m, 'd) libs \<Rightarrow> path \<Rightarrow> (path, 'm) py" where
  "open_w L p =
     call Open_w (\<lambda>w. case os_fault L Open_w p w of
         Some e \<Rightarrow> (Inl e, w)
       | None \<Rightarrow> (case create (files w) p [] of
             Inl e \<Rightarrow> (Inl e, w)
           | Inr fs \<Rightarrow> (Inr p, w\<lparr>files := fs\<rparr>)))"

text \<open>
  \<^verbatim>\<open>fw.write(s)\<close> on the file opened at \<open>p\<close>, with the closing of the file that ends the
  \<^verbatim>\<open>with\<close> block: the text is appended. When the operating system refuses the write, the
  exception is raised and an initial part of the text may have reached the file.
\<close>

definition file_write :: "('m, 'd) libs \<Rightarrow> path \<Rightarrow> string \<Rightarrow> (unit, 'm) py" where
  "file_write L p s =
     call File_write (\<lambda>w. case files w p of
         Some (File c) \<Rightarrow>
           (case os_fault L File_write p w of
              Some e \<Rightarrow> (Inl e, w\<lparr>files := (files w)(p \<mapsto> File (c @ take (os_written L p w) s))\<rparr>)
            | None \<Rightarrow> (Inr (), w\<lparr>files := (files w)(p \<mapsto> File (c @ s))\<rparr>))
       | _ \<Rightarrow> (Inl ValueError, w))"

section \<open>Cells 24 and 27: save\_svg and save\_png\<close>

text \<open>
  \<^verbatim>\<open>
  def save_svg(mol, filepath):
      svg = moltosvg(mol)
      with open(filepath, "w") as fw:
          fw.write(svg)
  \<close>
\<close>

definition save_svg :: "('m, 'd) libs \<Rightarrow> ref option \<Rightarrow> path \<Rightarrow> (unit, 'm) py" where
  "save_svg L v filepath =
     bindP (moltosvg L v None None) (\<lambda>svg'.
     bindP (open_w L filepath) (\<lambda>fw.
     file_write L fw svg'))"

text \<open>
  \<^verbatim>\<open>Draw.MolToFile(mol, filepath, size=size)\<close>: RDKit draws the molecule at that size and
  writes the image to the file itself.
\<close>

definition Draw_MolToFile :: "('m, 'd) libs \<Rightarrow> ref option \<Rightarrow> path \<Rightarrow> int \<times> int \<Rightarrow> (unit, 'm) py" where
  "Draw_MolToFile L v filepath size' =
     call MolToFile (\<lambda>w. case rd_MolToFile L (map_option (mols w) v) size' of
         Inl e \<Rightarrow> (Inl e, w)
       | Inr img \<Rightarrow> (case os_fault L MolToFile filepath w of
             Some e \<Rightarrow> (Inl e, w)
           | None \<Rightarrow> (case create (files w) filepath img of
                 Inl e \<Rightarrow> (Inl e, w)
               | Inr fs \<Rightarrow> (Inr (), w\<lparr>files := fs\<rparr>))))"

text \<open>
  \<^verbatim>\<open>
  def save_png(mol, filepath, size=(600, 600)):
      Draw.MolToFile(mol, filepath, size=size)
  \<close>
\<close>

definition save_png :: "('m, 'd) libs \<Rightarrow> ref option \<Rightarrow> path \<Rightarrow> (int \<times> int) option \<Rightarrow> (unit, 'm) py" where
  "save_png L v filepath size' = Draw_MolToFile L v filepath (default (600, 600) size')"

section \<open>The dataset utility\<close>

text \<open>
  Modelled from the spec: the label schema, "a fixed, ordered list of 15 property names
  as strings, matching the dataset's documented schema". \<^verbatim>\<open>get_qm9_label_names\<close> is code of
  \<^verbatim>\<open>chainer_chemistry\<close> that is not among the sources; the names are the ones the notebook
  records as its result (the output of cell In [6]).
\<close>

definition get_qm9_label_names :: "string list" where
  "get_qm9_label_names =
     [''A'', ''B'', ''C'', ''mu'', ''alpha'', ''homo'', ''lumo'', ''gap'', ''r2'', ''zpve'',
      ''U0'', ''U'', ''H'', ''G'', ''Cv'']"

text \<open>
  The schema the notebook documents (the table of the markdown cell after In [6], from
  the dataset's \<^verbatim>\<open>readme.txt\<close>): number, property and unit of each column.
\<close>

definition readme_table :: "(nat \<times> string \<times> string) list" where
  "readme_table =
     [(1, ''tag'', ''-''), (2, ''index'', ''-''), (3, ''A'', ''GHz''), (4, ''B'', ''GHz''),
      (5, ''C'', ''GHz''), (6, ''mu'', ''Debye''), (7, ''alpha'', ''Bohr^3''),
      (8, ''homo'', ''Hartree''), (9, ''lumo'', ''Hartree''), (10, ''gap'', ''Hartree''),
      (11, ''r2'', ''Bohr^2''), (12, ''zpve'', ''Hartree''), (13, ''U0'', ''Hartree''),
      (14, ''U'', ''Hartree''), (15, ''H'', ''Hartree''), (16, ''G'', ''Hartree''),
      (17, ''Cv'', ''cal/(mol K)'')]"

text \<open>The counts the preprocessing routine reports when it finishes.\<close>

record report =
  n_fail :: nat
  n_success :: nat
  n_total :: nat

text \<open>
  Modelled from the spec: the preprocessing interface, "given a collection of raw
  molecule records and a preprocessor policy, returns (a) a collection of fixed-shape
  numeric tuples and (b) optionally a parallel collection of textual molecule
  descriptors, reporting per-record success/failure counts and a total". \<^verbatim>\<open>get_qm9\<close> is
  code of \<^verbatim>\<open>chainer_chemistry\<close> that is not among the sources. A record the policy fails
  on is counted and left out; a record it accepts gives the tuple of the policy's atom
  array and adjacency matrices with the record's label vector, one entry per label
  name, and its descriptor. \<open>labels = None\<close> extracts every label of the schema.
\<close>

fun preprocess_records ::
  "(raw_record \<Rightarrow> exn + int list \<times> real list list list) \<Rightarrow> string list \<Rightarrow> raw_record list
    \<Rightarrow> (features \<times> string) list" where
  "preprocess_records pre names [] = []"
| "preprocess_records pre names (r # rs) =
     (case pre r of
        Inl e \<Rightarrow> preprocess_records pre names rs
      | Inr (a, m) \<Rightarrow> ((a, m, map (property r) names), descriptor r) # preprocess_records pre names rs)"

fun count_failures :: "(raw_record \<Rightarrow> exn + int list \<times> real list list list) \<Rightarrow> raw_record list \<Rightarrow> nat" where
  "count_failures pre [] = 0"
| "count_failures pre (r # rs) =
     (case pre r of Inl e \<Rightarrow> Suc (count_failures pre rs) | Inr x \<Rightarrow> count_failures pre rs)"

definition get_qm9 ::
  "(raw_record \<Rightarrow> exn + int list \<times> real list list list) \<Rightarrow> string list option \<Rightarrow> bool
    \<Rightarrow> raw_record list \<Rightarrow> features list \<times> string list option \<times> report" where
  "get_qm9 pre labels' return_smiles rs =
     (let ok = preprocess_records pre (default get_qm9_label_names labels') rs
      in (map fst ok,
          if return_smiles then Some (map snd ok) else None,
          \<lparr>n_fail = count_failures pre rs, n_success = length ok, n_total = length rs\<rparr>))"

section \<open>The cells, in the order of the notebook\<close>

text \<open>
  In [2]:
  \<^verbatim>\<open>
  lg = RDLogger.logger()
  lg.setLevel(RDLogger.CRITICAL)
  logging.basicConfig(level=logging.INFO)
  \<close>
  The logger \<open>lg\<close> is used in this cell only; it is not among the globals of the model.
\<close>

definition cell2 :: "('m, 'd) libs \<Rightarrow> (unit, 'm) py" where
  "cell2 L =
     bindP (effect_call L RDLogger_logger) (\<lambda>_.
     bindP (effect_call L Logger_setLevel) (\<lambda>_.
     effect_call L Logging_basicConfig))"

text \<open>
  In [5]:
  \<^verbatim>\<open>
  dataset_filepath = datasets.get_qm9_filepath()
  print('dataset_filepath =', dataset_filepath)
  \<close>
\<close>

definition cell5 :: "('m, 'd) libs \<Rightarrow> (unit, 'm) py" where
  "cell5 L =
     bindP (pure_call Get_qm9_filepath (cc_get_qm9_filepath L)) (\<lambda>p.
     bindP (setvars (\<lambda>g. g\<lparr>dataset_filepath := Some p\<rparr>)) (\<lambda>_.
     bindP (getvar dataset_filepath) (\<lambda>_.
     py_print L)))"

text \<open>
  In [6]:
  \<^verbatim>\<open>
  label_names = datasets.get_qm9_label_names()
  print('QM9 label_names =', label_names)
  \<close>
\<close>

definition cell6 :: "('m, 'd) libs \<Rightarrow> (unit, 'm) py" where
  "cell6 L =
     bindP (pure_call Get_qm9_label_names (Inr get_qm9_label_names)) (\<lambda>ns.
     bindP (setvars (\<lambda>g. g\<lparr>label_names := Some ns\<rparr>)) (\<lambda>_.
     bindP (getvar label_names) (\<lambda>_.
     py_print L)))"

text \<open>
  In [7]:
  \<^verbatim>\<open>
  preprocessor = GGNNPreprocessor()
  dataset, dataset_smiles = datasets.get_qm9(preprocessor, labels=None, return_smiles=True)
  \<close>
  The pair is unpacked into the two names; without the descriptors there is no pair
  to unpack. The preprocessor object is used in this cell only: its policy is the
  parameter \<open>cc_preprocess\<close>.
\<close>

definition cell7 :: "('m, 'd) libs \<Rightarrow> (unit, 'm) py" where
  "cell7 L =
     bindP (effect_call L GGNNPreprocessor_new) (\<lambda>_.
     bindP (pure_call Get_qm9
              (case cc_qm9_records L of
                 Inl e \<Rightarrow> Inl e
               | Inr rs \<Rightarrow> Inr (get_qm9 (cc_preprocess L) None True rs))) (\<lambda>(ds, ss, rep).
     case ss of
       None \<Rightarrow> raiseP ValueError
     | Some s \<Rightarrow> setvars (\<lambda>g. g\<lparr>dataset := Some ds, dataset_smiles := Some s\<rparr>)))"

text \<open>
  In [8]:
  \<^verbatim>\<open>
  print('dataset information...')
  print('dataset', type(dataset), len(dataset))
  print('smiles information...')
  print('dataset_smiles', type(dataset_smiles), len(dataset_smiles))
  \<close>
\<close>

definition cell8 :: "('m, 'd) libs \<Rightarrow> (unit, 'm) py" where
  "cell8 L =
     bindP (py_print L) (\<lambda>_.
     bindP (getvar dataset) (\<lambda>_.
     bindP (py_print L) (\<lambda>_.
     bindP (py_print L) (\<lambda>_.
     bindP (getvar dataset_smiles) (\<lambda>_.
     py_print L)))))"

text \<open>\<open>name[index]\<close> for two of the notebook's globals.\<close>

definition subscript :: "(globals \<Rightarrow> 'a list option) \<Rightarrow> (globals \<Rightarrow> int option) \<Rightarrow> ('a, 'm) py" where
  "subscript f g = bindP (getvar f) (\<lambda>xs. bindP (getvar g) (\<lambda>i. getitem xs i))"

text \<open>
  In [9]:
  \<^verbatim>\<open>
  index = 7777
  print('index={}, SMILES={}'.format(index, dataset_smiles[index]))
  atom, adj, labels = dataset[index]
  print('atom', atom.shape, atom)
  print('adj', adj.shape)
  print('adjacency matrix for SINGLE bond type\n', adj[0])
  print('adjacency matrix for DOUBLE bond type\n', adj[1])
  print('adjacency matrix for TRIPLE bond type\n', adj[2])
  print('adjacency matrix for AROMATIC bond type\n', adj[3])
  print('labels', labels)
  \<close>
\<close>

definition print_adj :: "('m, 'd) libs \<Rightarrow> int \<Rightarrow> (unit, 'm) py" where
  "print_adj L k = bindP (getvar adj) (\<lambda>m. bindP (getitem m k) (\<lambda>_. py_print L))"

definition cell9 :: "('m, 'd) libs \<Rightarrow> (unit, 'm) py" where
  "cell9 L =
     bindP (setvars (\<lambda>g. g\<lparr>index := Some 7777\<rparr>)) (\<lambda>_.
     bindP (getvar index) (\<lambda>_.
     bindP (subscript dataset_smiles index) (\<lambda>_.
     bindP (py_print L) (\<lambda>_.
     bindP (subscript dataset index) (\<lambda>(atom', adj', labels').
     bindP (setvars (\<lambda>g. g\<lparr>atom := Some atom', adj := Some adj', labels := Some labels'\<rparr>)) (\<lambda>_.
     bindP (getvar atom) (\<lambda>_.
     bindP (py_print L) (\<lambda>_.
     bindP (getvar adj) (\<lambda>_.
     bindP (py_print L) (\<lambda>_.
     bindP (print_adj L 0) (\<lambda>_.
     bindP (print_adj L 1) (\<lambda>_.
     bindP (print_adj L 2) (\<lambda>_.
     bindP (print_adj L 3) (\<lambda>_.
     bindP (getvar labels) (\<lambda>_.
     py_print L)))))))))))))))"

text \<open>
  In [11]:
  \<^verbatim>\<open>
  smiles = dataset_smiles[index]
  mol = Chem.MolFromSmiles(dataset_smiles[index])
  print('smiles:', smiles)
  svg = moltosvg(mol)
  render_svg(svg)
  \<close>
\<close>

definition cell11 :: "('m, 'd) libs \<Rightarrow> (unit, 'm) py" where
  "cell11 L =
     bindP (subscript dataset_smiles index) (\<lambda>s.
     bindP (setvars (\<lambda>g. g\<lparr>smiles := Some s\<rparr>)) (\<lambda>_.
     bindP (subscript dataset_smiles index) (\<lambda>s.
     bindP (Chem_MolFromSmiles L s) (\<lambda>v.
     bindP (setvars (\<lambda>g. g\<lparr>mol := Some v\<rparr>)) (\<lambda>_.
     bindP (getvar smiles) (\<lambda>_.
     bindP (py_print L) (\<lambda>_.
     bindP (getvar mol) (\<lambda>v.
     bindP (moltosvg L v None None) (\<lambda>s.
     bindP (setvars (\<lambda>g. g\<lparr>svg := Some s\<rparr>)) (\<lambda>_.
     bindP (getvar svg) (\<lambda>s.
     bindP (render_svg L s) (\<lambda>_.
     returnP ()))))))))))))"

text \<open>
  \<^verbatim>\<open>interact(f, index=(min, max, step))\<close> of ipywidgets builds the slider from the triple,
  registers \<open>f\<close> as its callback, and before it returns runs \<open>f\<close> once on the slider's
  initial value. The widget runs its callback under a handler of its own: an exception
  of \<open>f\<close> is caught and shown as a traceback, and \<^verbatim>\<open>interact\<close> returns. What the widget does
  with the value \<open>f\<close> returns is its own affair and no call of the notebook.
\<close>

definition interact ::
  "('m, 'd) libs \<Rightarrow> (int \<Rightarrow> ('a, 'm) py) \<Rightarrow> int \<times> int \<times> int \<Rightarrow> (unit, 'm) py" where
  "interact L f rng =
     bindP (call Interact (\<lambda>w. case lib_effect L Interact w of
                Some e \<Rightarrow> (Inl e, w)
              | None \<Rightarrow> (Inr (), w\<lparr>slider := Some rng\<rparr>))) (\<lambda>_.
     try_except (bindP (f (iw_initial L rng)) (\<lambda>_. returnP ())) (returnP ()))"

text \<open>
  In [12]:
  \<^verbatim>\<open>
  np.set_printoptions(precision=3, suppress=True)
  def show_dataset(index): ...
  interact(show_dataset, index=(0, len(dataset) - 1, 1))
  \<close>
  The later calls of \<open>show_dataset\<close>, one for every move of the slider, are made by the
  widget after the cell has returned: they are the slider events of a session.
\<close>

definition cell12 :: "('m, 'd) libs \<Rightarrow> (unit, 'm) py" where
  "cell12 L =
     bindP (effect_call L Np_set_printoptions) (\<lambda>_.
     bindP (getvar dataset) (\<lambda>ds.
     interact L (show_dataset L) (0, int (length ds) - 1, 1)))"

text \<open>
  In [13]:
  \<^verbatim>\<open>
  dirpath = 'images'
  if not os.path.exists(dirpath):
      os.mkdir(dirpath)
  \<close>
\<close>

definition cell13 :: "('m, 'd) libs \<Rightarrow> (unit, 'm) py" where
  "cell13 L =
     bindP (setvars (\<lambda>g. g\<lparr>dirpath := Some [''images'']\<rparr>)) (\<lambda>_.
     bindP (getvar dirpath) (\<lambda>p.
     bindP (os_path_exists p) (\<lambda>b.
     if \<not> b then bindP (getvar dirpath) (os_mkdir L) else returnP ())))"

text \<open>
  In [15] and In [17], with the extension and the helper that differ:
  \<^verbatim>\<open>
  index = 7777
  save_filepath = os.path.join(dirpath, 'mol_{}.svg'.format(index))
  print('drawing {}'.format(save_filepath))
  mol = Chem.MolFromSmiles(dataset_smiles[index])
  save_svg(mol, save_filepath)
  \<close>
  and, in In [17], \<^verbatim>\<open>save_png(mol, save_filepath, size=(600, 600))\<close>.
\<close>

definition export_cell ::
  "('m, 'd) libs \<Rightarrow> string \<Rightarrow> (ref option \<Rightarrow> path \<Rightarrow> (unit, 'm) py) \<Rightarrow> (unit, 'm) py" where
  "export_cell L ext save =
     bindP (setvars (\<lambda>g. g\<lparr>index := Some 7777\<rparr>)) (\<lambda>_.
     bindP (getvar dirpath) (\<lambda>d.
     bindP (getvar index) (\<lambda>i.
     bindP (setvars (\<lambda>g. g\<lparr>save_filepath := Some (d @ [''mol_'' @ str_int i @ ext])\<rparr>)) (\<lambda>_.
     bindP (getvar save_filepath) (\<lambda>_.
     bindP (py_print L) (\<lambda>_.
     bindP (subscript dataset_smiles index) (\<lambda>s.
     bindP (Chem_MolFromSmiles L s) (\<lambda>v.
     bindP (setvars (\<lambda>g. g\<lparr>mol := Some v\<rparr>)) (\<lambda>_.
     bindP (getvar mol) (\<lambda>v.
     bindP (getvar save_filepath) (\<lambda>p.
     save v p)))))))))))"

definition cell15 :: "('m, 'd) libs \<Rightarrow> (unit, 'm) py" where
  "cell15 L = export_cell L ''.svg'' (save_svg L)"

definition cell17 :: "('m, 'd) libs \<Rightarrow> (unit, 'm) py" where
  "cell17 L = export_cell L ''.png'' (\<lambda>v p. save_png L v p (Some (600, 600)))"

section \<open>Predicates the properties are stated with\<close>

text \<open>A call returns when it does not raise.\<close>

definition returns :: "exn + 'a \<Rightarrow> bool" where
  "returns r = (\<exists>x. r = Inr x)"

text \<open>
  What \<open>moltosvg\<close> is meant to draw, in the words of its steps: a fresh copy of the
  molecule; kekulized in place, or a second fresh copy when kekulization raises; given
  2D coordinates when it has no conformer; and the text of the finished drawing.
\<close>

definition fresh_copy :: "('m, 'd) libs \<Rightarrow> 'm \<Rightarrow> 'm" where
  "fresh_copy L m = projr (rd_Mol L (projr (rd_ToBinary L m)))"

definition kekulized_or_fresh :: "('m, 'd) libs \<Rightarrow> 'm \<Rightarrow> 'm" where
  "kekulized_or_fresh L m =
     (case fst (rd_Kekulize L (fresh_copy L m)) of
        Inl e \<Rightarrow> fresh_copy L m
      | Inr u \<Rightarrow> snd (rd_Kekulize L (fresh_copy L m)))"

definition drawn_copy :: "('m, 'd) libs \<Rightarrow> 'm \<Rightarrow> bool \<Rightarrow> 'm" where
  "drawn_copy L m kekulize = (if kekulize then kekulized_or_fresh L m else fresh_copy L m)"

definition with_coords :: "('m, 'd) libs \<Rightarrow> 'm \<Rightarrow> 'm" where
  "with_coords L c =
     (if projr (rd_GetNumConformers L c) = 0 then snd (rd_Compute2DCoords L c) else c)"

definition drawing_text :: "('m, 'd) libs \<Rightarrow> int \<times> int \<Rightarrow> 'm \<Rightarrow> string" where
  "drawing_text L molSize c =
     projr (rd_GetDrawingText L (projr (rd_FinishDrawing L
       (projr (rd_DrawMolecule L (projr (rd_MolDraw2DSVG L (fst molSize) (snd molSize))) c)))))"

text \<open>
  The RDKit calls \<open>moltosvg\<close> makes without a handler, on the values it makes them on for
  the molecule \<open>m\<close>, all return: the copy, the count of conformers, the coordinates when
  there is no conformer, and the four steps of the drawing. \<^verbatim>\<open>Chem.Kekulize\<close> and the second
  copy, made when it raises, are under the handler: of the second copy, which is of the
  same molecule as the first, nothing more is asked than of the first.
\<close>

definition unguarded_calls_return :: "('m, 'd) libs \<Rightarrow> 'm \<Rightarrow> int \<times> int \<Rightarrow> bool \<Rightarrow> bool" where
  "unguarded_calls_return L m molSize kekulize =
     (returns (rd_ToBinary L m)
      \<and> returns (rd_Mol L (projr (rd_ToBinary L m)))
      \<and> returns (rd_GetNumConformers L (drawn_copy L m kekulize))
      \<and> (projr (rd_GetNumConformers L (drawn_copy L m kekulize)) = 0 \<longrightarrow>
           returns (fst (rd_Compute2DCoords L (drawn_copy L m kekulize))))
      \<and> returns (rd_MolDraw2DSVG L (fst molSize) (snd molSize))
      \<and> returns (rd_DrawMolecule L (projr (rd_MolDraw2DSVG L (fst molSize) (snd molSize)))
                   (with_coords L (drawn_copy L m kekulize)))
      \<and> returns (rd_FinishDrawing L
                   (projr (rd_DrawMolecule L (projr (rd_MolDraw2DSVG L (fst molSize) (snd molSize)))
                      (with_coords L (drawn_copy L m kekulize)))))
      \<and> returns (rd_GetDrawingText L (projr (rd_FinishDrawing L
                   (projr (rd_DrawMolecule L (projr (rd_MolDraw2DSVG L (fst molSize) (snd molSize)))
                      (with_coords L (drawn_copy L m kekulize))))))))"

text \<open>The calls \<open>moltosvg\<close> makes when these calls return.\<close>

definition kekulize_calls :: "('m, 'd) libs \<Rightarrow> 'm \<Rightarrow> (api \<times> exn option) list" where
  "kekulize_calls L m =
     (case fst (rd_Kekulize L (fresh_copy L m)) of
        Inl e \<Rightarrow> [(Kekulize, Some e), (ToBinary, None), (Chem_Mol, None)]
      | Inr u \<Rightarrow> [(Kekulize, None)])"

definition moltosvg_calls :: "('m, 'd) libs \<Rightarrow> 'm \<Rightarrow> bool \<Rightarrow> (api \<times> exn option) list" where
  "moltosvg_calls L m kekulize =
     [(ToBinary, None), (Chem_Mol, None)]
     @ (if kekulize then kekulize_calls L m else [])
     @ [(GetNumConformers, None)]
     @ (if projr (rd_GetNumConformers L (drawn_copy L m kekulize)) = 0
        then [(Compute2DCoords, None)] else [])
     @ [(MolDraw2DSVG, None), (DrawMolecule, None), (FinishDrawing, None), (GetDrawingText, None)]"

text \<open>
  \<open>untouched n w0 w\<close>: from \<open>w0\<close> to \<open>w\<close> no molecule object with a reference below \<open>n\<close>
  has changed, and neither have the files, the globals and the slider.
\<close>

definition untouched :: "ref \<Rightarrow> 'm world \<Rightarrow> 'm world \<Rightarrow> bool" where
  "untouched n w0 w =
     (n \<le> next_ref w \<and> (\<forall>a<n. mols w a = mols w0 a) \<and> files w = files w0 \<and> vars w = vars w0
      \<and> slider w = slider w0)"

text \<open>
  \<open>inv I V m\<close>: started in a state with \<open>I\<close>, the statement \<open>m\<close> ends in a state with \<open>I\<close>,
  raising or not, and a value it returns has \<open>V\<close>.
\<close>

definition inv :: "('m world \<Rightarrow> bool) \<Rightarrow> ('a \<Rightarrow> bool) \<Rightarrow> ('a, 'm) py \<Rightarrow> bool" where
  "inv I V m = (\<forall>w. I w \<longrightarrow> I (snd (m w)) \<and> (\<forall>x. fst (m w) = Inr x \<longrightarrow> V x))"

text \<open>A statement is silent when it makes no external call.\<close>

definition silent :: "('a, 'm) py \<Rightarrow> bool" where
  "silent m = (\<forall>w. calls (snd (m w)) = calls w)"

text \<open>
  \<open>seg Q m\<close>: whatever the state, the calls \<open>m\<close> makes are appended to the list, and
  these new calls and the outcome of \<open>m\<close> satisfy \<open>Q\<close>.
\<close>

definition seg :: "((api \<times> exn option) list \<Rightarrow> exn + 'a \<Rightarrow> bool) \<Rightarrow> ('a, 'm) py \<Rightarrow> bool" where
  "seg Q m = (\<forall>w. \<exists>xs. calls (snd (m w)) = calls w @ xs \<and> Q xs (fst (m w)))"

text \<open>
  The calls of a list that raised, those of the operations in \<open>G\<close> left out; and what it
  means that failures propagate: no call outside \<open>G\<close> raised, or exactly one did, it was
  the last call made, and its exception is the outcome.
\<close>

definition unguarded_failures :: "api set \<Rightarrow> (api \<times> exn option) list \<Rightarrow> (api \<times> exn option) list" where
  "unguarded_failures G xs = filter (\<lambda>(a, e). e \<noteq> None \<and> a \<notin> G) xs"

definition unhandled :: "api set \<Rightarrow> (api \<times> exn option) list \<Rightarrow> exn + 'a \<Rightarrow> bool" where
  "unhandled G xs r =
     (unguarded_failures G xs = []
      \<or> (\<exists>a e ys. xs = ys @ [(a, Some e)] \<and> a \<notin> G \<and> unguarded_failures G ys = [] \<and> r = Inl e))"

text \<open>
  \<open>changes A w w'\<close>: from \<open>w\<close> to \<open>w'\<close> the globals \<open>dataset\<close> and \<open>dataset_smiles\<close> and the
  slider are the same, and the only calls made are of operations in \<open>A\<close>. A statement
  frames \<open>A\<close> when that is all it ever does.
\<close>

definition changes :: "api set \<Rightarrow> 'm world \<Rightarrow> 'm world \<Rightarrow> bool" where
  "changes A w w' =
     (dataset (vars w') = dataset (vars w) \<and> dataset_smiles (vars w') = dataset_smiles (vars w)
      \<and> slider w' = slider w \<and> (\<exists>xs. calls w' = calls w @ xs \<and> (\<forall>x\<in>set xs. fst x \<in> A)))"

definition frames :: "api set \<Rightarrow> ('a, 'm) py \<Rightarrow> bool" where
  "frames A m = (\<forall>w. changes A w (snd (m w)))"

text \<open>A call whose body leaves the globals, the slider and the call list alone.\<close>

definition quiet :: "('a, 'm) py \<Rightarrow> bool" where
  "quiet m = (\<forall>w. vars (snd (m w)) = vars w \<and> slider (snd (m w)) = slider w
                 \<and> calls (snd (m w)) = calls w)"

text \<open>
  The sessions that follow preprocessing. From the state \<open>w0\<close> in which cell In [7] has
  returned, the user runs the later cells, in any order and any number of times, and,
  once \<^verbatim>\<open>interact\<close> has registered the slider, the slider hands a value it can deliver to
  \<open>show_dataset\<close>; a cell or a callback that raises leaves the state it reached.
\<close>

definition later_cells :: "('m, 'd) libs \<Rightarrow> (unit, 'm) py list" where
  "later_cells L = [cell8 L, cell9 L, cell11 L, cell12 L, cell13 L, cell15 L, cell17 L]"

inductive session :: "('m, 'd) libs \<Rightarrow> 'm world \<Rightarrow> 'm world \<Rightarrow> bool" for L w0 where
  start: "session L w0 w0"
| run_cell: "session L w0 w \<Longrightarrow> c \<in> set (later_cells L) \<Longrightarrow> session L w0 (snd (c w))"
| slide: "session L w0 w \<Longrightarrow> slider w = Some rng \<Longrightarrow> iw_delivers L rng v
          \<Longrightarrow> session L w0 (snd (show_dataset L v w))"


text \<open>
  What the notebook records as the output of the inspection cell In [9] for index 7777,
  the molecule \<^verbatim>\<open>CC1=NCCC(C)O1\<close>: the atom array, the four adjacency matrices in the
  order SINGLE, DOUBLE, TRIPLE, AROMATIC, and the printed entries of the label vector.
\<close>

definition recorded_atom :: "int list" where
  "recorded_atom = [6, 6, 7, 6, 6, 6, 6, 8]"

definition recorded_adj :: "real list list list" where
  "recorded_adj =
     [[[0, 1, 0, 0, 0, 0, 0, 0],
       [1, 0, 0, 0, 0, 0, 0, 1],
       [0, 0, 0, 1, 0, 0, 0, 0],
       [0, 0, 1, 0, 1, 0, 0, 0],
       [0, 0, 0, 1, 0, 1, 0, 0],
       [0, 0, 0, 0, 1, 0, 1, 1],
       [0, 0, 0, 0, 0, 1, 0, 0],
       [0, 1, 0, 0, 0, 1, 0, 0]],
      [[0, 0, 0, 0, 0, 0, 0, 0],
       [0, 0, 1, 0, 0, 0, 0, 0],
       [0, 1, 0, 0, 0, 0, 0, 0],
       [0, 0, 0, 0, 0, 0, 0, 0],
       [0, 0, 0, 0, 0, 0, 0, 0],
       [0, 0, 0, 0, 0, 0, 0, 0],
       [0, 0, 0, 0, 0, 0, 0, 0],
       [0, 0, 0, 0, 0, 0, 0, 0]],
      [[0, 0, 0, 0, 0, 0, 0, 0],
       [0, 0, 0, 0, 0, 0, 0, 0],
       [0, 0, 0, 0, 0, 0, 0, 0],
       [0, 0, 0, 0, 0, 0, 0, 0],
       [0, 0, 0, 0, 0, 0, 0, 0],
       [0, 0, 0, 0, 0, 0, 0, 0],
       [0, 0, 0, 0, 0, 0, 0, 0],
       [0, 0, 0, 0, 0, 0, 0, 0]],
      [[0, 0, 0, 0, 0, 0, 0, 0],
       [0, 0, 0, 0, 0, 0, 0, 0],
       [0, 0, 0, 0, 0, 0, 0, 0],
       [0, 0, 0, 0, 0, 0, 0, 0],
       [0, 0, 0, 0, 0, 0, 0, 0],
       [0, 0, 0, 0, 0, 0, 0, 0],
       [0, 0, 0, 0, 0, 0, 0, 0],
       [0, 0, 0, 0, 0, 0, 0, 0]]]"

definition recorded_labels :: "string list" where
  "recorded_labels =
     [''3.1431000e+00'', ''1.8749400e+00'', ''1.2443100e+00'', ''1.9313999e+00'',
      ''7.3379997e+01'', ''-2.3750000e-01'', ''3.4699999e-02'', ''2.7219999e-01'',
      ''1.0124120e+03'', ''1.6597100e-01'', ''-3.6510001e+02'', ''-3.6509183e+02'',
      ''-3.6509088e+02'', ''-3.6513235e+02'', ''3.0584999e+01'']"

text \<open>The shape of a stack of matrices, as numpy reports it, and the diagonal of a matrix.\<close>

definition shape3 :: "'a list list list \<Rightarrow> nat \<times> nat list \<times> nat list list" where
  "shape3 a = (length a, map length a, map (map length) a)"

definition diagonal :: "'a list list \<Rightarrow> 'a list" where
  "diagonal m = map (\<lambda>i. m ! i ! i) [0..<length m]"

text \<open>The calls a statement adds to the list.\<close>

definition new_calls :: "('a, 'm) py \<Rightarrow> 'm world \<Rightarrow> (api \<times> exn option) list" where
  "new_calls m w = drop (length (calls w)) (calls (snd (m w)))"

text \<open>
  The whole notebook, run top to bottom: the cells that only define functions (In [10],
  In [14], In [16]) make no call. A cell that raises stops the run.
\<close>

definition notebook :: "('m, 'd) libs \<Rightarrow> (unit, 'm) py list" where
  "notebook L =
     [cell2 L, cell5 L, cell6 L, cell7 L, cell8 L, cell9 L, cell11 L, cell12 L, cell13 L,
      cell15 L, cell17 L]"

fun run_all :: "(unit, 'm) py list \<Rightarrow> (unit, 'm) py" where
  "run_all [] = returnP ()"
| "run_all (c # cs) = bindP c (\<lambda>u. run_all cs)"

text \<open>
  The operations \<open>show_dataset\<close> calls: the ones whose failure the slider widget catches
  when it runs \<open>show_dataset\<close> as its callback.
\<close>

definition callback_apis :: "api set" where
  "callback_apis =
     {GetItem, Print, MolFromSmiles, ToBinary, Chem_Mol, Kekulize, GetNumConformers,
      Compute2DCoords, MolDraw2DSVG, DrawMolecule, FinishDrawing, GetDrawingText, SVG_new}"

text \<open>
  The shape of a statement: the sequences of operations it can have called when it
  returns. \<open>just xs\<close> is the one sequence \<open>xs\<close>; \<open>opt xs\<close> is \<open>xs\<close> or nothing, for calls made
  under a test; \<open>then_shape\<close> and \<open>chain\<close> put shapes one after the other; \<open>cut A\<close> is any
  initial part of a sequence of \<open>A\<close>, for a statement whose exception is caught.
\<close>

type_synonym shape = "api list set"

definition just :: "api list \<Rightarrow> shape" where
  "just xs = {xs}"

definition opt :: "api list \<Rightarrow> shape" where
  "opt xs = {[], xs}"

definition then_shape :: "shape \<Rightarrow> shape \<Rightarrow> shape" where
  "then_shape A B = (\<lambda>(xs, ys). xs @ ys) ` (A \<times> B)"

definition cut :: "shape \<Rightarrow> shape" where
  "cut A = (\<Union>xs\<in>A. set (prefixes xs))"

fun chain :: "shape list \<Rightarrow> shape" where
  "chain [] = just []"
| "chain (A # As) = then_shape A (chain As)"

text \<open>
  \<open>follows A xs r\<close>: a statement that returned has called one of the sequences of \<open>A\<close>, one
  that raised has called an initial part of one.
\<close>

definition follows :: "shape \<Rightarrow> (api \<times> exn option) list \<Rightarrow> exn + 'a \<Rightarrow> bool" where
  "follows A xs r =
     (case r of Inl e \<Rightarrow> (\<exists>ys\<in>A. prefix (map fst xs) ys) | Inr x \<Rightarrow> map fst xs \<in> A)"

text \<open>
  The shape of \<open>moltosvg\<close> with its defaults: the copy and the kekulization, a second
  copy when kekulization raised, the count of conformers, the coordinates when there
  is no conformer, and the drawing. The shape of \<open>show_dataset\<close> has it in the middle.
\<close>

definition moltosvg_shape :: shape where
  "moltosvg_shape =
     chain [just [ToBinary, Chem_Mol, Kekulize], opt [ToBinary, Chem_Mol],
            just [GetNumConformers], opt [Compute2DCoords],
            just [MolDraw2DSVG, DrawMolecule, FinishDrawing, GetDrawingText]]"

definition show_dataset_shape :: shape where
  "show_dataset_shape =
     chain [just [GetItem, Print, GetItem, Print, Print, GetItem, MolFromSmiles], moltosvg_shape,
            just [SVG_new]]"

text \<open>
  The steps of the notebook, as the shape of each: (a) log and display setup, (b)
  dataset path resolution, (c) label-name retrieval, (d) preprocessing, (e) the
  inspection of the collections and of one record, (f) rendering, (g) the slider, with
  the first run of its callback, (h) the image export.
\<close>

definition step_a :: shape where
  "step_a = just [RDLogger_logger, Logger_setLevel, Logging_basicConfig]"

definition step_b :: shape where
  "step_b = just [Get_qm9_filepath, Print]"

definition step_c :: shape where
  "step_c = just [Get_qm9_label_names, Print]"

definition step_d :: shape where
  "step_d = just [GGNNPreprocessor_new, Get_qm9]"

definition step_e :: shape where
  "step_e =
     just [Print, Print, Print, Print,
           GetItem, Print, GetItem, Print, Print, GetItem, Print, GetItem, Print, GetItem, Print,
           GetItem, Print, Print]"

definition step_f :: shape where
  "step_f = chain [just [GetItem, GetItem, MolFromSmiles, Print], moltosvg_shape, just [SVG_new]]"

definition step_g :: shape where
  "step_g = chain [just [Np_set_printoptions, Interact], cut show_dataset_shape]"

definition step_h :: shape where
  "step_h =
     chain [just [Os_path_exists], opt [Os_mkdir],
            just [Print, GetItem, MolFromSmiles], moltosvg_shape, just [Open_w, File_write],
            just [Print, GetItem, MolFromSmiles, MolToFile]]"

definition notebook_shape :: shape where
  "notebook_shape = chain [step_a, step_b, step_c, step_d, step_e, step_f, step_g, step_h]"

section \<open>A small library and session to run the notebook on\<close>

text \<open>
  A molecule is its descriptor, whether it is kekulized and its number of conformers.
  Kekulization raises on a descriptor with an aromatic carbon; the empty descriptor
  does not parse.
\<close>

type_synonym demo_mol = "string \<times> bool \<times> nat"

definition demo_record :: "string \<Rightarrow> raw_record" where
  "demo_record s = \<lparr>descriptor = s, property = (\<lambda>n. real (length n))\<rparr>"

text \<open>Three records: methane, one without a descriptor, and benzene.\<close>

definition demo_records :: "raw_record list" where
  "demo_records = [demo_record ''C'', demo_record '''', demo_record ''c1ccccc1'']"

text \<open>
  The preprocessor rejects a record without a descriptor and gives every other record
  one carbon atom; the image of a molecule says whether it was drawn at 600 by 600; the
  slider starts in the middle and delivers the values between its minimum and its
  maximum; no call made for its effect raises and the operating system refuses nothing.
\<close>

definition demo_libs :: "(demo_mol, string) libs" where
  "demo_libs =
     \<lparr>rd_MolFromSmiles = (\<lambda>s. if s = [] then Inr None else Inr (Some (s, False, 0))),
      rd_ToBinary = (\<lambda>(s, k, c). Inr s),
      rd_Mol = (\<lambda>b. Inr (b, False, 0)),
      rd_Kekulize = (\<lambda>(s, k, c).
         if CHR ''c'' \<in> set s then (Inl (LibraryError ''Can't kekulize mol''), (s, k, c))
         else (Inr (), (s, True, c))),
      rd_GetNumConformers = (\<lambda>(s, k, c). Inr c),
      rd_Compute2DCoords = (\<lambda>(s, k, c). (Inr (), (s, k, 1))),
      rd_MolDraw2DSVG = (\<lambda>x y. Inr ''<svg:svg>''),
      rd_DrawMolecule = (\<lambda>d (s, k, c). Inr (d @ s)),
      rd_FinishDrawing = (\<lambda>d. Inr (d @ ''</svg:svg>'')),
      rd_GetDrawingText = (\<lambda>d. Inr d),
      rd_MolToFile = (\<lambda>m sz. case m of
           None \<Rightarrow> Inl ValueError
         | Some (s, k, c) \<Rightarrow> Inr ((if sz = (600, 600) then ''PNG 600x600 '' else ''PNG '') @ s)),
      ip_SVG = (\<lambda>s. Inr s),
      iw_delivers = (\<lambda>(lo, hi, st) v. lo \<le> v \<and> v \<le> hi),
      iw_initial = (\<lambda>(lo, hi, st). lo + (hi - lo) div 2),
      cc_get_qm9_filepath = Inr ''qm9.csv'',
      cc_qm9_records = Inr demo_records,
      cc_preprocess = (\<lambda>r. if descriptor r = [] then Inl ValueError
                            else Inr ([6], [[[0]], [[0]], [[0]], [[0]]])),
      lib_effect = (\<lambda>a w. None),
      os_fault = (\<lambda>a p w. None),
      os_written = (\<lambda>p w. 0)\<rparr>"

text \<open>The tuple of a record the preprocessor accepts.\<close>

definition demo_features :: "string \<Rightarrow> features" where
  "demo_features s = ([6], [[[0]], [[0]], [[0]], [[0]]], map (\<lambda>n. real (length n)) get_qm9_label_names)"

definition no_globals :: globals where
  "no_globals =
     \<lparr>dataset_filepath = None, label_names = None, dataset = None, dataset_smiles = None,
      index = None, atom = None, adj = None, labels = None, smiles = None, mol = None,
      svg = None, dirpath = None, save_filepath = None\<rparr>"

text \<open>A fresh session with one molecule object, benzene, at reference 0.\<close>

definition demo_world :: "demo_mol world" where
  "demo_world =
     \<lparr>mols = (\<lambda>a. (''c1ccccc1'', False, 0)), next_ref = 1, files = Map.empty, calls = [],
      vars = no_globals, slider = None\<rparr>"

text \<open>
  The session after preprocessing, after the slider cell In [12], and after the slider
  has handed 1 to \<open>show_dataset\<close>.
\<close>

definition demo_session0 :: "demo_mol world" where
  "demo_session0 = snd (cell7 demo_libs demo_world)"

definition demo_session1 :: "demo_mol world" where
  "demo_session1 = snd (cell12 demo_libs demo_session0)"

definition demo_session2 :: "demo_mol world" where
  "demo_session2 = snd (show_dataset demo_libs 1 demo_session1)"

text \<open>The same library with 7778 records of methane, enough for the index 7777.\<close>

definition big_libs :: "(demo_mol, string) libs" where
  "big_libs = demo_libs\<lparr>cc_qm9_records := Inr (replicate 7778 (demo_record ''C''))\<rparr>"

text \<open>
  Four variations: a drawer that refuses every molecule, a toolkit whose copies come with
  a conformer, a session whose molecule object is methane, and a session in which
  \<^verbatim>\<open>images\<close> is a symbolic link to nothing.
\<close>

definition demo_no_drawing :: "(demo_mol, string) libs" where
  "demo_no_drawing = demo_libs\<lparr>rd_DrawMolecule := (\<lambda>d m. Inl (LibraryError ''no drawing''))\<rparr>"

definition demo_conformers :: "(demo_mol, string) libs" where
  "demo_conformers = demo_libs\<lparr>rd_Mol := (\<lambda>b. Inr (b, False, 1))\<rparr>"

definition demo_methane :: "demo_mol world" where
  "demo_methane = demo_world\<lparr>mols := (\<lambda>a. (''C'', False, 0))\<rparr>"

definition demo_dangling :: "demo_mol world" where
  "demo_dangling = demo_world\<lparr>files := [[''images''] \<mapsto> Dangling]\<rparr>"

section \<open>Lemmas\<close>

subsection \<open>Running statements\<close>

lemma bindP_run:
  "bindP m k w = (case fst (m w) of Inl e \<Rightarrow> (Inl e, snd (m w)) | Inr x \<Rightarrow> k x (snd (m w)))"
  by (simp add: bindP_def split_beta split: sum.splits)

lemma try_except_run:
  "try_except m h w = (case fst (m w) of Inl e \<Rightarrow> h (snd (m w)) | Inr x \<Rightarrow> (Inr x, snd (m w)))"
  by (simp add: try_except_def split_beta split: sum.splits)

lemma raised_simps: "raised (Inr x) = None" "raised (Inl e) = Some e"
  by (simp_all add: raised_def)

lemma returns_case: "returns r \<Longrightarrow> (case r of Inl e \<Rightarrow> f e | Inr x \<Rightarrow> g x) = g (projr r)"
  by (auto simp: returns_def)

lemma returns_eq: "returns r \<Longrightarrow> (r = Inr y) = (projr r = y)"
  by (auto simp: returns_def)

lemma returns_raised: "returns r \<Longrightarrow> raised r = None"
  by (auto simp: returns_def raised_def)

lemma in_place_run:
  "in_place a f mc w =
     (fst (f (mols w mc)),
      w\<lparr>mols := (mols w)(mc := snd (f (mols w mc))),
        calls := calls w @ [(a, raised (fst (f (mols w mc))))]\<rparr>)"
  by (simp add: in_place_def call_def split_beta)

subsection \<open>Invariants of statements\<close>

lemma inv_returnP: "V x \<Longrightarrow> inv I V (returnP x)"
  by (simp add: inv_def returnP_def)

lemma inv_bindP:
  assumes "inv I U m" and "\<And>x. U x \<Longrightarrow> inv I V (k x)"
  shows "inv I V (bindP m k)"
  unfolding inv_def
proof (intro allI impI)
  fix w assume w: "I w"
  show "I (snd (bindP m k w)) \<and> (\<forall>x. fst (bindP m k w) = Inr x \<longrightarrow> V x)"
  proof (cases "fst (m w)")
    case (Inl e)
    then show ?thesis using assms(1) w by (simp add: bindP_run inv_def)
  next
    case (Inr x)
    then have "U x" and "I (snd (m w))" using assms(1) w by (simp_all add: inv_def)
    then show ?thesis using assms(2)[of x] Inr by (simp add: bindP_run inv_def)
  qed
qed

lemma inv_try_except:
  assumes "inv I V m" and "inv I V h"
  shows "inv I V (try_except m h)"
  unfolding inv_def
proof (intro allI impI)
  fix w assume w: "I w"
  show "I (snd (try_except m h w)) \<and> (\<forall>x. fst (try_except m h w) = Inr x \<longrightarrow> V x)"
  proof (cases "fst (m w)")
    case (Inl e)
    moreover have "I (snd (m w))" using assms(1) w by (simp add: inv_def)
    ultimately show ?thesis using assms(2) by (simp add: try_except_run inv_def)
  next
    case (Inr x)
    then show ?thesis using assms(1) w by (simp add: try_except_run inv_def)
  qed
qed

lemma inv_if: "(b \<Longrightarrow> inv I V m) \<Longrightarrow> (\<not> b \<Longrightarrow> inv I V n) \<Longrightarrow> inv I V (if b then m else n)"
  by simp

lemma inv_call:
  assumes "\<And>w c. I (w\<lparr>calls := c\<rparr>) = I w" and "inv I V m"
  shows "inv I V (call a m)"
  using assms by (simp add: inv_def call_def split_beta)

lemma inv_pure_call:
  "(\<And>w c. I (w\<lparr>calls := c\<rparr>) = I w) \<Longrightarrow> inv I (\<lambda>x. True) (pure_call a r)"
  unfolding pure_call_def by (rule inv_call) (simp_all add: inv_def)

subsection \<open>moltosvg touches only its own copies\<close>

lemma untouched_calls: "untouched n w0 (w\<lparr>calls := c\<rparr>) = untouched n w0 w"
  by (simp add: untouched_def)

lemma mol_ToBinary_untouched: "inv (untouched n w0) (\<lambda>x. True) (mol_ToBinary L v)"
  unfolding mol_ToBinary_def
  by (rule inv_call) (simp_all add: untouched_calls inv_def split: option.splits)

lemma Chem_Mol_of_untouched: "inv (untouched n w0) (\<lambda>mc. n \<le> mc) (Chem_Mol_of L b)"
  unfolding Chem_Mol_of_def
  by (rule inv_call) (auto simp: untouched_calls inv_def new_mol_def untouched_def split: sum.splits)

lemma copy_of_untouched: "inv (untouched n w0) (\<lambda>mc. n \<le> mc) (copy_of L v)"
  unfolding copy_of_def
  by (rule inv_bindP[OF mol_ToBinary_untouched Chem_Mol_of_untouched])

lemma in_place_untouched: "n \<le> mc \<Longrightarrow> inv (untouched n w0) (\<lambda>x. True) (in_place a f mc)"
  unfolding in_place_def
  by (rule inv_call) (auto simp: untouched_calls inv_def untouched_def split_beta)

lemma draw_svg_untouched: "inv (untouched n w0) (\<lambda>x. True) (draw_svg L sz mc)"
  unfolding draw_svg_def drawer_DrawMolecule_def
  by (intro inv_bindP[where U = "\<lambda>x. True"] inv_pure_call inv_call)
     (simp_all add: untouched_calls inv_def)

lemma moltosvg_untouched: "inv (untouched n w0) (\<lambda>x. True) (moltosvg L v ms k)"
  unfolding moltosvg_def
proof (rule inv_bindP[OF copy_of_untouched])
  fix mc0 assume mc0: "n \<le> mc0"
  have kek: "inv (untouched n w0) (\<lambda>mc. n \<le> mc)
      (if default True k
       then try_except (bindP (Chem_Kekulize L mc0) (\<lambda>u. returnP mc0)) (copy_of L v)
       else returnP mc0)"
    using mc0
    by (intro inv_if inv_try_except inv_bindP[where U = "\<lambda>x. True"] inv_returnP copy_of_untouched)
       (simp_all add: Chem_Kekulize_def in_place_untouched)
  have rest: "inv (untouched n w0) (\<lambda>x. True)
      (bindP (mol_GetNumConformers L mc) (\<lambda>c.
       bindP (if c = 0 then rdDepictor_Compute2DCoords L mc else returnP ()) (\<lambda>u.
       draw_svg L (default (450, 150) ms) mc)))" if "n \<le> mc" for mc
    using that unfolding mol_GetNumConformers_def rdDepictor_Compute2DCoords_def
    by (intro inv_bindP[where U = "\<lambda>x. True"] inv_if inv_call in_place_untouched inv_returnP
        draw_svg_untouched)
       (simp_all add: untouched_calls inv_def)
  show "inv (untouched n w0) (\<lambda>x. True)
      (bindP (if default True k
              then try_except (bindP (Chem_Kekulize L mc0) (\<lambda>u. returnP mc0)) (copy_of L v)
              else returnP mc0) (\<lambda>mc.
       bindP (mol_GetNumConformers L mc) (\<lambda>c.
       bindP (if c = 0 then rdDepictor_Compute2DCoords L mc else returnP ()) (\<lambda>u.
       draw_svg L (default (450, 150) ms) mc))))"
    by (rule inv_bindP[OF kek rest])
qed

lemma moltosvg_frame: "untouched (next_ref w) w (snd (moltosvg L v ms k w))"
proof -
  have "untouched (next_ref w) w w" by (simp add: untouched_def)
  then show ?thesis using moltosvg_untouched[of "next_ref w" w L v ms k] by (simp add: inv_def)
qed

subsection \<open>moltosvg when the calls it makes without a handler return\<close>

lemma copy_of_ok:
  assumes "returns (rd_ToBinary L (mols w a))"
    and "returns (rd_Mol L (projr (rd_ToBinary L (mols w a))))"
  shows "copy_of L (Some a) w =
     (Inr (next_ref w),
      w\<lparr>mols := (mols w)(next_ref w := fresh_copy L (mols w a)), next_ref := Suc (next_ref w),
        calls := calls w @ [(ToBinary, None), (Chem_Mol, None)]\<rparr>)"
  using assms
  by (simp add: copy_of_def mol_ToBinary_def Chem_Mol_of_def new_mol_def
      bindP_def call_def returns_case returns_raised returns_eq raised_simps fresh_copy_def)

lemma draw_svg_ok:
  assumes "returns (rd_MolDraw2DSVG L (fst sz) (snd sz))"
    and "returns (rd_DrawMolecule L (projr (rd_MolDraw2DSVG L (fst sz) (snd sz))) (mols w mc))"
    and "returns (rd_FinishDrawing L
           (projr (rd_DrawMolecule L (projr (rd_MolDraw2DSVG L (fst sz) (snd sz))) (mols w mc))))"
    and "returns (rd_GetDrawingText L (projr (rd_FinishDrawing L
           (projr (rd_DrawMolecule L (projr (rd_MolDraw2DSVG L (fst sz) (snd sz))) (mols w mc))))))"
  shows "draw_svg L sz mc w =
     (Inr (drawing_text L sz (mols w mc)),
      w\<lparr>calls := calls w @ [(MolDraw2DSVG, None), (DrawMolecule, None), (FinishDrawing, None),
                             (GetDrawingText, None)]\<rparr>)"
  using assms
  by (simp add: draw_svg_def drawer_DrawMolecule_def
      bindP_def call_def pure_call_def returns_case returns_raised returns_eq raised_simps
      drawing_text_def)

lemma conformers_ok:
  assumes "returns (rd_GetNumConformers L (mols w mc))"
    and "projr (rd_GetNumConformers L (mols w mc)) = 0 \<longrightarrow>
           returns (fst (rd_Compute2DCoords L (mols w mc)))"
  shows "bindP (mol_GetNumConformers L mc) (\<lambda>n.
           if n = 0 then rdDepictor_Compute2DCoords L mc else returnP ()) w =
     (Inr (),
      w\<lparr>mols := (mols w)(mc := with_coords L (mols w mc)),
        calls := calls w @ (GetNumConformers, None)
                 # (if projr (rd_GetNumConformers L (mols w mc)) = 0
                    then [(Compute2DCoords, None)] else [])\<rparr>)"
  using assms
  by (simp add: bindP_run mol_GetNumConformers_def rdDepictor_Compute2DCoords_def in_place_run
      call_def returnP_def returns_case returns_raised returns_eq raised_simps with_coords_def)

lemma kekulize_ok:
  assumes "returns (rd_ToBinary L (mols w a))"
    and "returns (rd_Mol L (projr (rd_ToBinary L (mols w a))))"
    and "a \<noteq> mc" and "mc < next_ref w" and "mols w mc = fresh_copy L (mols w a)"
  shows "\<exists>mc' w'. try_except (bindP (Chem_Kekulize L mc) (\<lambda>u. returnP mc)) (copy_of L (Some a)) w
             = (Inr mc', w')
           \<and> mols w' mc' = kekulized_or_fresh L (mols w a)
           \<and> calls w' = calls w @ kekulize_calls L (mols w a)"
proof (cases "fst (rd_Kekulize L (fresh_copy L (mols w a)))")
  case (Inl e)
  then show ?thesis
    using assms
    by (simp add: try_except_run bindP_run Chem_Kekulize_def in_place_run copy_of_ok raised_simps
        kekulized_or_fresh_def kekulize_calls_def)
next
  case (Inr u)
  then show ?thesis
    using assms
    by (simp add: try_except_run bindP_run Chem_Kekulize_def in_place_run returnP_def raised_simps
        kekulized_or_fresh_def kekulize_calls_def)
qed

lemma bindP_assoc: "bindP (bindP m f) g = bindP m (\<lambda>x. bindP (f x) g)"
  by (rule ext) (simp add: bindP_def split: prod.splits sum.splits)

lemma bindP_Inr: "m w = (Inr x, w') \<Longrightarrow> bindP m k w = k x w'"
  by (simp add: bindP_def)

lemma moltosvg_ok:
  assumes H: "unguarded_calls_return L (mols w a) sz kf" and a: "a < next_ref w"
    and sz: "sz = (case ms of None \<Rightarrow> (450, 150) | Some s \<Rightarrow> s)" and kf: "kf = (k \<noteq> Some False)"
  shows "fst (moltosvg L (Some a) ms k w) =
           Inr (drawing_text L sz (with_coords L (drawn_copy L (mols w a) kf)))
         \<and> calls (snd (moltosvg L (Some a) ms k w)) = calls w @ moltosvg_calls L (mols w a) kf"
proof -
  let ?m = "mols w a"
  let ?n = "next_ref w"
  let ?c = "drawn_copy L ?m kf"
  have tb: "returns (rd_ToBinary L ?m)" and mk: "returns (rd_Mol L (projr (rd_ToBinary L ?m)))"
    and nc: "returns (rd_GetNumConformers L ?c)"
    and cc: "projr (rd_GetNumConformers L ?c) = 0 \<longrightarrow> returns (fst (rd_Compute2DCoords L ?c))"
    and d1: "returns (rd_MolDraw2DSVG L (fst sz) (snd sz))"
    and d2: "returns (rd_DrawMolecule L (projr (rd_MolDraw2DSVG L (fst sz) (snd sz))) (with_coords L ?c))"
    and d3: "returns (rd_FinishDrawing L
               (projr (rd_DrawMolecule L (projr (rd_MolDraw2DSVG L (fst sz) (snd sz))) (with_coords L ?c))))"
    and d4: "returns (rd_GetDrawingText L (projr (rd_FinishDrawing L
               (projr (rd_DrawMolecule L (projr (rd_MolDraw2DSVG L (fst sz) (snd sz))) (with_coords L ?c))))))"
    using H by (simp_all add: unguarded_calls_return_def)
  define w1 where "w1 = w\<lparr>mols := (mols w)(?n := fresh_copy L ?m), next_ref := Suc ?n,
        calls := calls w @ [(ToBinary, None), (Chem_Mol, None)]\<rparr>"
  have 1: "copy_of L (Some a) w = (Inr ?n, w1)" unfolding w1_def by (rule copy_of_ok[OF tb mk])
  have ne: "a \<noteq> ?n" using a by simp
  have m1: "mols w1 a = ?m" "mols w1 ?n = fresh_copy L ?m" "?n < next_ref w1"
    using ne by (simp_all add: w1_def)
  obtain mc w2 where 2:
      "(if default True k
        then try_except (bindP (Chem_Kekulize L ?n) (\<lambda>u. returnP ?n)) (copy_of L (Some a))
        else returnP ?n) w1 = (Inr mc, w2)"
      "mols w2 mc = ?c" "calls w2 = calls w1 @ (if kf then kekulize_calls L ?m else [])"
  proof (cases kf)
    case True
    then have k: "default True k" using kf by (cases k) (simp_all add: default_def)
    obtain mc' w' where
      "try_except (bindP (Chem_Kekulize L ?n) (\<lambda>u. returnP ?n)) (copy_of L (Some a)) w1 = (Inr mc', w')"
      "mols w' mc' = kekulized_or_fresh L (mols w1 a)" "calls w' = calls w1 @ kekulize_calls L (mols w1 a)"
      using kekulize_ok[of L w1 a ?n] tb mk ne m1 by auto
    then show ?thesis using that[of mc' w'] True k by (simp add: m1 drawn_copy_def)
  next
    case False
    then have k: "\<not> default True k" using kf by (cases k) (simp_all add: default_def)
    show ?thesis using that[of ?n w1] False k by (simp add: returnP_def m1 drawn_copy_def)
  qed
  define w3 where "w3 = w2\<lparr>mols := (mols w2)(mc := with_coords L ?c),
        calls := calls w2 @ (GetNumConformers, None)
                 # (if projr (rd_GetNumConformers L ?c) = 0 then [(Compute2DCoords, None)] else [])\<rparr>"
  have 3: "bindP (mol_GetNumConformers L mc) (\<lambda>n.
             if n = 0 then rdDepictor_Compute2DCoords L mc else returnP ()) w2 = (Inr (), w3)"
    using conformers_ok[of L w2 mc] nc cc by (simp add: 2(2) w3_def)
  have m3: "mols w3 mc = with_coords L ?c" by (simp add: w3_def)
  have s: "default (450, 150) ms = sz" using sz by (cases ms) (simp_all add: default_def)
  have 4: "draw_svg L sz mc w3 =
     (Inr (drawing_text L sz (with_coords L ?c)),
      w3\<lparr>calls := calls w3 @ [(MolDraw2DSVG, None), (DrawMolecule, None), (FinishDrawing, None),
                               (GetDrawingText, None)]\<rparr>)"
    using draw_svg_ok[of L sz w3 mc] d1 d2 d3 d4 by (simp add: m3)
  have alt: "moltosvg L (Some a) ms k =
     bindP (copy_of L (Some a)) (\<lambda>mc.
     bindP (if default True k
            then try_except (bindP (Chem_Kekulize L mc) (\<lambda>u. returnP mc)) (copy_of L (Some a))
            else returnP mc) (\<lambda>mc.
     bindP (bindP (mol_GetNumConformers L mc) (\<lambda>n.
              if n = 0 then rdDepictor_Compute2DCoords L mc else returnP ())) (\<lambda>u.
     draw_svg L (default (450, 150) ms) mc)))"
    by (simp add: moltosvg_def bindP_assoc)
  have "moltosvg L (Some a) ms k w =
     (Inr (drawing_text L sz (with_coords L ?c)),
      w3\<lparr>calls := calls w3 @ [(MolDraw2DSVG, None), (DrawMolecule, None), (FinishDrawing, None),
                               (GetDrawingText, None)]\<rparr>)"
    unfolding alt
    by (simp add: bindP_Inr[where m = "copy_of L (Some a)" and w = w, OF 1]
        bindP_Inr[where w = w1 and m = "if default True k
            then try_except (bindP (Chem_Kekulize L ?n) (\<lambda>u. returnP ?n)) (copy_of L (Some a))
            else returnP ?n", OF 2(1)]
        bindP_Inr[where w = w2 and m = "bindP (mol_GetNumConformers L mc) (\<lambda>n.
             if n = 0 then rdDepictor_Compute2DCoords L mc else returnP ())", OF 3] s 4)
  then show ?thesis by (simp add: w3_def 2(3) w1_def moltosvg_calls_def)
qed

lemma returns_Inr: "returns (Inr x)"
  by (simp add: returns_def)

lemma demo_calls_return: "unguarded_calls_return demo_libs (s, False, 0) sz kf"
  by (simp add: unguarded_calls_return_def demo_libs_def returns_Inr split_beta)

lemma demo_moltosvg:
  "fst (moltosvg demo_libs (Some 0) None None demo_world) = Inr ''<svg:svg>c1ccccc1</svg:svg>''"
  "calls (snd (moltosvg demo_libs (Some 0) None None demo_world)) =
       [(ToBinary, None), (Chem_Mol, None), (Kekulize, Some (LibraryError ''Can't kekulize mol'')),
        (ToBinary, None), (Chem_Mol, None), (GetNumConformers, None), (Compute2DCoords, None),
        (MolDraw2DSVG, None), (DrawMolecule, None), (FinishDrawing, None), (GetDrawingText, None)]"
proof -
  have w: "0 < next_ref demo_world" by (simp add: demo_world_def)
  have m: "mols demo_world 0 = (''c1ccccc1'', False, 0)" "calls demo_world = []"
    by (simp_all add: demo_world_def)
  have H: "unguarded_calls_return demo_libs (mols demo_world 0) (450, 150) True"
    unfolding m by (rule demo_calls_return)
  show "fst (moltosvg demo_libs (Some 0) None None demo_world) = Inr ''<svg:svg>c1ccccc1</svg:svg>''"
   and "calls (snd (moltosvg demo_libs (Some 0) None None demo_world)) =
       [(ToBinary, None), (Chem_Mol, None), (Kekulize, Some (LibraryError ''Can't kekulize mol'')),
        (ToBinary, None), (Chem_Mol, None), (GetNumConformers, None), (Compute2DCoords, None),
        (MolDraw2DSVG, None), (DrawMolecule, None), (FinishDrawing, None), (GetDrawingText, None)]"
    using moltosvg_ok[OF H w, of None None]
    by (simp_all add: m drawing_text_def with_coords_def drawn_copy_def
        kekulized_or_fresh_def fresh_copy_def moltosvg_calls_def kekulize_calls_def demo_libs_def)
qed

subsection \<open>The image directory\<close>

text \<open>The state in which cell In [13] has made its test, and the outcome of its \<^verbatim>\<open>os.mkdir\<close>.\<close>

lemma cell13_run:
  "cell13 L w =
     (let w' = w\<lparr>vars := (vars w)\<lparr>dirpath := Some [''images'']\<rparr>,
                 calls := calls w @ [(Os_path_exists, None)]\<rparr>
      in if exists_at (files w) [''images''] then (Inr (), w')
         else (case os_fault L Os_mkdir [''images''] w' of
                 Some e \<Rightarrow> (Inl e, w'\<lparr>calls := calls w' @ [(Os_mkdir, Some e)]\<rparr>)
               | None \<Rightarrow> (case mkdir (files w) [''images''] of
                     Inl e \<Rightarrow> (Inl e, w'\<lparr>calls := calls w' @ [(Os_mkdir, Some e)]\<rparr>)
                   | Inr fs \<Rightarrow> (Inr (), w'\<lparr>files := fs, calls := calls w' @ [(Os_mkdir, None)]\<rparr>))))"
  by (simp add: cell13_def returnP_def bindP_def call_def getvar_def setvars_def raised_def
      os_path_exists_def os_mkdir_def Let_def split: option.splits sum.splits)

lemma mkdir_images:
  "mkdir fs [''images''] = (if fs [''images''] \<noteq> None then Inl FileExistsError else Inr (fs([''images''] \<mapsto> Dir)))"
  by (simp add: mkdir_def parent_error_def parent_is_file_def parent_exists_def)

lemma cell13_first:
  assumes "cell13 L w = (r, w1)"
  shows "(exists_at (files w) [''images''] \<longrightarrow>
            r = Inr () \<and> files w1 = files w \<and> calls w1 = calls w @ [(Os_path_exists, None)])
         \<and> (\<not> exists_at (files w) [''images''] \<longrightarrow>
              calls w1 = calls w @ [(Os_path_exists, None), (Os_mkdir, raised r)]
              \<and> files w1 = (if r = Inr () then (files w)([''images''] \<mapsto> Dir) else files w))"
  using assms
  by (auto simp: cell13_run mkdir_images Let_def raised_simps split: option.splits if_splits)

lemma cell13_second:
  assumes "cell13 L w = (Inr (), w1)"
  shows "cell13 L w1 = (Inr (), w1\<lparr>calls := calls w1 @ [(Os_path_exists, None)]\<rparr>)"
proof -
  have "exists_at (files w1) [''images''] \<and> vars w1 = (vars w)\<lparr>dirpath := Some [''images'']\<rparr>"
    using assms
    by (auto simp: cell13_run mkdir_images Let_def exists_at_def split: option.splits if_splits)
  then show ?thesis by (simp add: cell13_run Let_def)
qed

subsection \<open>Failures of calls propagate\<close>

lemma seg_bindP:
  assumes m: "seg Q1 m" and k: "\<And>x. seg (Q2 x) (k x)"
    and l: "\<And>xs e. Q1 xs (Inl e) \<Longrightarrow> Q xs (Inl e)"
    and r: "\<And>xs x ys r. Q1 xs (Inr x) \<Longrightarrow> Q2 x ys r \<Longrightarrow> Q (xs @ ys) r"
  shows "seg Q (bindP m k)"
  unfolding seg_def
proof
  fix w
  obtain xs where xs: "calls (snd (m w)) = calls w @ xs" "Q1 xs (fst (m w))"
    using m unfolding seg_def by blast
  show "\<exists>zs. calls (snd (bindP m k w)) = calls w @ zs \<and> Q zs (fst (bindP m k w))"
  proof (cases "fst (m w)")
    case (Inl e)
    then show ?thesis using xs l by (auto simp: bindP_run)
  next
    case (Inr x)
    obtain ys where ys: "calls (snd (k x (snd (m w)))) = calls (snd (m w)) @ ys"
        "Q2 x ys (fst (k x (snd (m w))))"
      using k[of x] unfolding seg_def by blast
    have "Q (xs @ ys) (fst (k x (snd (m w))))" using r xs(2) ys(2) Inr by simp
    then show ?thesis using Inr xs(1) ys(1) by (auto simp: bindP_run)
  qed
qed

lemma unguarded_failures_simps:
  "unguarded_failures G [] = []"
  "unguarded_failures G (xs @ ys) = unguarded_failures G xs @ unguarded_failures G ys"
  "unguarded_failures G [(a, None)] = []"
  "a \<in> G \<Longrightarrow> unguarded_failures G [(a, e)] = []"
  by (simp_all add: unguarded_failures_def)

lemma unhandled_Inr: "unhandled G xs (Inr x) = (unguarded_failures G xs = [])"
  by (simp add: unhandled_def)

lemma unhandled_append:
  assumes "unguarded_failures G xs = []" and "unhandled G ys r"
  shows "unhandled G (xs @ ys) r"
  using assms unfolding unhandled_def
  by (auto simp: unguarded_failures_simps)

lemma unhandled_bindP:
  assumes "seg (unhandled G) m" and "\<And>x. seg (unhandled G) (k x)"
  shows "seg (unhandled G) (bindP m k)"
proof (rule seg_bindP[OF assms(1), where ?Q2.0 = "\<lambda>x. unhandled G"])
  show "seg (unhandled G) (k x)" for x by (rule assms(2))
  show "unhandled G xs (Inl e) \<Longrightarrow> unhandled G xs (Inl e)" for xs e by (simp add: unhandled_def)
  show "unhandled G xs (Inr x) \<Longrightarrow> unhandled G ys r \<Longrightarrow> unhandled G (xs @ ys) r" for xs x ys r
    by (simp add: unhandled_Inr unhandled_append)
qed

lemma silent_simps:
  "silent (returnP x)" "silent (raiseP e)" "silent (getvar f)" "silent (setvars g)" "silent (new_mol c)"
  by (simp_all add: silent_def returnP_def raiseP_def getvar_def setvars_def new_mol_def split: option.splits)

lemma unhandled_silent: "silent m \<Longrightarrow> seg (unhandled G) m"
  by (simp add: seg_def silent_def unhandled_def unguarded_failures_simps)

lemma call_calls: "silent m \<Longrightarrow> calls (snd (call a m w)) = calls w @ [(a, raised (fst (call a m w)))]"
  by (simp add: silent_def call_def split_beta)

lemma unhandled_call: "silent m \<Longrightarrow> seg (unhandled G) (call a m)"
  unfolding seg_def
proof
  fix w assume s: "silent m"
  have "unhandled G [(a, raised (fst (call a m w)))] (fst (call a m w))"
    by (cases "fst (call a m w)"; cases "a \<in> G")
       (auto simp: unhandled_def raised_simps unguarded_failures_def)
  then show "\<exists>xs. calls (snd (call a m w)) = calls w @ xs \<and> unhandled G xs (fst (call a m w))"
    using call_calls[OF s] by blast
qed


lemma unhandled_pure_call: "seg (unhandled G) (pure_call a r)"
  unfolding pure_call_def by (rule unhandled_call) (simp add: silent_def)

lemma unhandled_if: "(b \<Longrightarrow> seg Q m) \<Longrightarrow> (\<not> b \<Longrightarrow> seg Q n) \<Longrightarrow> seg Q (if b then m else n)"
  by simp

lemma seg_case_prod: "(\<And>a b. seg Q (f a b)) \<Longrightarrow> seg Q (case x of (a, b) \<Rightarrow> f a b)"
  by (simp add: split_beta)

lemma seg_case_option: "seg Q m \<Longrightarrow> (\<And>a. seg Q (f a)) \<Longrightarrow> seg Q (case x of None \<Rightarrow> m | Some a \<Rightarrow> f a)"
  by (simp split: option.splits)

lemma unhandled_try_kekulize:
  assumes "Kekulize \<in> G" and "seg (unhandled G) h"
  shows "seg (unhandled G) (try_except (bindP (Chem_Kekulize L mc) (\<lambda>u. returnP mc)) h)"
  unfolding seg_def
proof
  fix w
  let ?b = "bindP (Chem_Kekulize L mc) (\<lambda>u. returnP mc)"
  have b: "calls (snd (?b w)) = calls w @ [(Kekulize, raised (fst (?b w)))]"
    by (simp add: bindP_run Chem_Kekulize_def in_place_run returnP_def raised_simps split: sum.splits)
  show "\<exists>xs. calls (snd (try_except ?b h w)) = calls w @ xs \<and> unhandled G xs (fst (try_except ?b h w))"
  proof (cases "fst (?b w)")
    case (Inl e)
    obtain ys where ys: "calls (snd (h (snd (?b w)))) = calls (snd (?b w)) @ ys"
        "unhandled G ys (fst (h (snd (?b w))))"
      using assms(2) unfolding seg_def by blast
    have "unhandled G ([(Kekulize, raised (fst (?b w)))] @ ys) (fst (h (snd (?b w))))"
      by (rule unhandled_append) (simp_all add: unguarded_failures_simps ys assms(1))
    then show ?thesis using Inl b ys(1) by (auto simp: try_except_run)
  next
    case (Inr x)
    then show ?thesis using b assms(1)
      by (auto simp: try_except_run unhandled_def unguarded_failures_simps raised_simps)
  qed
qed

lemma unhandled_basic:
  "seg (unhandled G) (returnP x)" "seg (unhandled G) (raiseP e)" "seg (unhandled G) (getvar f)"
  "seg (unhandled G) (setvars g)"
  by (simp_all add: unhandled_silent silent_simps)

lemmas unhandled_intros =
  unhandled_bindP unhandled_if seg_case_prod seg_case_option unhandled_pure_call unhandled_call
  unhandled_basic unhandled_try_kekulize

lemma unhandled_copy_of: "seg (unhandled G) (copy_of L v)"
  unfolding copy_of_def mol_ToBinary_def Chem_Mol_of_def
  by (intro unhandled_intros) (simp_all add: silent_def new_mol_def split: option.splits sum.splits)

lemma unhandled_draw_svg: "seg (unhandled G) (draw_svg L sz mc)"
  unfolding draw_svg_def drawer_DrawMolecule_def
  by (intro unhandled_intros) (simp_all add: silent_def)

lemma unhandled_moltosvg: "Kekulize \<in> G \<Longrightarrow> seg (unhandled G) (moltosvg L v ms k)"
  unfolding moltosvg_def mol_GetNumConformers_def rdDepictor_Compute2DCoords_def in_place_def
  by (intro unhandled_copy_of unhandled_draw_svg unhandled_intros)
     (simp_all add: silent_simps silent_def split_beta)


lemma unhandled_prims:
  "seg (unhandled G) (getitem xs i)" "seg (unhandled G) (py_print L)"
  "seg (unhandled G) (effect_call L a)" "seg (unhandled G) (render_svg L s)"
  "seg (unhandled G) (Chem_MolFromSmiles L s)" "seg (unhandled G) (os_path_exists p)"
  "seg (unhandled G) (os_mkdir L p)" "seg (unhandled G) (open_w L p)"
  "seg (unhandled G) (file_write L p s)" "seg (unhandled G) (Draw_MolToFile L v p sz)"
  unfolding getitem_def py_print_def effect_call_def render_svg_def Chem_MolFromSmiles_def
    os_path_exists_def os_mkdir_def open_w_def file_write_def Draw_MolToFile_def
  by (intro unhandled_pure_call unhandled_call;
      simp add: silent_def bindP_def new_mol_def returnP_def
        split: sum.splits option.splits node.splits)+

lemma unhandled_subscript: "seg (unhandled G) (subscript f g)"
  unfolding subscript_def by (intro unhandled_intros unhandled_prims)

lemma unhandled_print_adj: "seg (unhandled G) (print_adj L k)"
  unfolding print_adj_def by (intro unhandled_intros unhandled_prims)

lemma unhandled_save_png: "seg (unhandled G) (save_png L v p sz)"
  unfolding save_png_def by (rule unhandled_prims)

lemma unhandled_save_svg: "Kekulize \<in> G \<Longrightarrow> seg (unhandled G) (save_svg L v p)"
  unfolding save_svg_def by (intro unhandled_intros unhandled_prims unhandled_moltosvg)

lemma unhandled_show_dataset: "Kekulize \<in> G \<Longrightarrow> seg (unhandled G) (show_dataset L i)"
  unfolding show_dataset_def by (intro unhandled_intros unhandled_prims unhandled_moltosvg)

lemma unhandled_export_cell:
  "(\<And>v p. seg (unhandled G) (save v p)) \<Longrightarrow> seg (unhandled G) (export_cell L ext save)"
  unfolding export_cell_def
  by (intro unhandled_intros unhandled_prims unhandled_subscript)

lemma unhandled_cells:
  "seg (unhandled G) (cell2 L)" "seg (unhandled G) (cell5 L)" "seg (unhandled G) (cell6 L)"
  "seg (unhandled G) (cell7 L)" "seg (unhandled G) (cell8 L)" "seg (unhandled G) (cell9 L)"
  "seg (unhandled G) (cell13 L)" "seg (unhandled G) (cell17 L)"
  unfolding cell2_def cell5_def cell6_def cell7_def cell8_def cell9_def cell13_def cell17_def
  by (intro unhandled_intros unhandled_prims unhandled_subscript unhandled_print_adj
      unhandled_export_cell unhandled_save_png)+

lemma unhandled_cells_svg:
  "Kekulize \<in> G \<Longrightarrow> seg (unhandled G) (cell11 L)" "Kekulize \<in> G \<Longrightarrow> seg (unhandled G) (cell15 L)"
  unfolding cell11_def cell15_def
  by (intro unhandled_intros unhandled_prims unhandled_subscript unhandled_export_cell
      unhandled_moltosvg unhandled_save_svg; assumption)+


subsection \<open>The export helpers, what the later cells leave alone, and sessions\<close>

lemma open_write_files:
  "fst (bindP (open_w L p) (\<lambda>fw. file_write L fw s) w) = Inr () \<Longrightarrow>
     files (snd (bindP (open_w L p) (\<lambda>fw. file_write L fw s) w)) = (files w)(p \<mapsto> File s)"
  "q \<noteq> p \<Longrightarrow> files (snd (bindP (open_w L p) (\<lambda>fw. file_write L fw s) w)) q = files w q"
  by (auto simp: bindP_def open_w_def file_write_def call_def create_def
      split: sum.splits option.splits if_splits)

lemma open_write_demo:
  "os_fault L Open_w [n] w = None \<Longrightarrow> files w [n] = None
   \<Longrightarrow> os_fault L File_write [n] (w\<lparr>files := (files w)([n] \<mapsto> File []), calls := calls w @ [(Open_w, None)]\<rparr>) = None
   \<Longrightarrow> fst (bindP (open_w L [n]) (\<lambda>fw. file_write L fw s) w) = Inr ()"
  by (simp add: bindP_def open_w_def file_write_def call_def create_def parent_error_def
      parent_is_file_def parent_exists_def raised_def)

lemma save_svg_run:
  "save_svg L v p w =
     (case fst (moltosvg L v None None w) of
        Inl e \<Rightarrow> (Inl e, snd (moltosvg L v None None w))
      | Inr s \<Rightarrow> bindP (open_w L p) (\<lambda>fw. file_write L fw s) (snd (moltosvg L v None None w)))"
  by (simp add: save_svg_def bindP_run)

lemma moltosvg_files: "files (snd (moltosvg L v ms k w)) = files w"
  using moltosvg_frame[of w L v ms k] by (simp add: untouched_def)

lemma save_png_run:
  assumes "fst (save_png L v p sz w) = Inr ()"
  shows "\<exists>img. rd_MolToFile L (map_option (mols w) v) (case sz of None \<Rightarrow> (600, 600) | Some s \<Rightarrow> s) = Inr img
           \<and> files (snd (save_png L v p sz w)) = (files w)(p \<mapsto> File img)
           \<and> calls (snd (save_png L v p sz w)) = calls w @ [(MolToFile, None)]"
  using assms
  by (cases sz)
     (auto simp: save_png_def default_def Draw_MolToFile_def call_def raised_def create_def
        split: sum.splits option.splits if_splits)

lemma changes_trans: "changes A w w1 \<Longrightarrow> changes A w1 w2 \<Longrightarrow> changes A w w2"
  unfolding changes_def by fastforce

lemma changes_mono: "changes A w w' \<Longrightarrow> A \<subseteq> B \<Longrightarrow> changes B w w'"
  unfolding changes_def by blast

lemma frames_mono: "frames A m \<Longrightarrow> A \<subseteq> B \<Longrightarrow> frames B m"
  unfolding frames_def using changes_mono by blast

lemma frames_bindP:
  assumes "frames A m" and "\<And>x. frames A (k x)"
  shows "frames A (bindP m k)"
  unfolding frames_def
proof
  fix w
  have 1: "changes A w (snd (m w))" using assms(1) by (simp add: frames_def)
  show "changes A w (snd (bindP m k w))"
  proof (cases "fst (m w)")
    case (Inl e)
    then show ?thesis using 1 by (simp add: bindP_run)
  next
    case (Inr x)
    have "changes A (snd (m w)) (snd (k x (snd (m w))))" using assms(2) by (simp add: frames_def)
    then show ?thesis using Inr changes_trans[OF 1] by (simp add: bindP_run)
  qed
qed

lemma frames_try_except:
  assumes "frames A m" and "frames A h"
  shows "frames A (try_except m h)"
  unfolding frames_def
proof
  fix w
  have 1: "changes A w (snd (m w))" using assms(1) by (simp add: frames_def)
  have 2: "changes A (snd (m w)) (snd (h (snd (m w))))" using assms(2) by (simp add: frames_def)
  show "changes A w (snd (try_except m h w))"
    using 1 changes_trans[OF 1 2] by (simp add: try_except_run split: sum.splits)
qed

lemma frames_if: "(b \<Longrightarrow> frames A m) \<Longrightarrow> (\<not> b \<Longrightarrow> frames A n) \<Longrightarrow> frames A (if b then m else n)"
  by simp


lemma frames_case_prod: "(\<And>a b. frames A (f a b)) \<Longrightarrow> frames A (case x of (a, b) \<Rightarrow> f a b)"
  by (simp add: split_beta)

lemma frames_case_option:
  "frames A m \<Longrightarrow> (\<And>a. frames A (f a)) \<Longrightarrow> frames A (case x of None \<Rightarrow> m | Some a \<Rightarrow> f a)"
  by (simp split: option.splits)

lemma frames_basic:
  "frames A (returnP x)" "frames A (raiseP e)" "frames A (getvar f)" "frames A (new_mol c)"
  by (simp_all add: frames_def changes_def returnP_def raiseP_def getvar_def new_mol_def
      split: option.splits)

lemma frames_call: "a \<in> A \<Longrightarrow> quiet m \<Longrightarrow> frames A (call a m)"
  by (simp add: frames_def changes_def quiet_def call_def split_beta)

lemma frames_pure_call: "a \<in> A \<Longrightarrow> frames A (pure_call a r)"
  unfolding pure_call_def by (rule frames_call) (simp_all add: quiet_def)

lemma frames_setvars:
  "(\<And>g. dataset (f g) = dataset g \<and> dataset_smiles (f g) = dataset_smiles g) \<Longrightarrow> frames A (setvars f)"
  by (simp add: frames_def changes_def setvars_def)

lemma frames_effect_call: "frames {a} (effect_call L a)"
  unfolding effect_call_def by (rule frames_call) (simp_all add: quiet_def)

lemma frames_exact:
  "frames {Print} (py_print L)"
  "frames {SVG_new} (render_svg L s)" "frames {ToBinary} (mol_ToBinary L v)"
  "frames {Chem_Mol} (Chem_Mol_of L b)" "frames {MolFromSmiles} (Chem_MolFromSmiles L s)"
  "frames {Kekulize} (Chem_Kekulize L mc)" "frames {Compute2DCoords} (rdDepictor_Compute2DCoords L mc)"
  "frames {GetNumConformers} (mol_GetNumConformers L mc)" "frames {DrawMolecule} (drawer_DrawMolecule L d mc)"
  "frames {Os_path_exists} (os_path_exists p)" "frames {Os_mkdir} (os_mkdir L p)"
  "frames {Open_w} (open_w L p)" "frames {File_write} (file_write L p s)"
  "frames {MolToFile} (Draw_MolToFile L v p sz)"
  "frames {MolDraw2DSVG} (pure_call MolDraw2DSVG r1)" "frames {FinishDrawing} (pure_call FinishDrawing r2)"
  "frames {GetDrawingText} (pure_call GetDrawingText r3)" "frames {GetItem} (getitem xs i)"
  unfolding py_print_def effect_call_def render_svg_def mol_ToBinary_def Chem_Mol_of_def
    Chem_MolFromSmiles_def Chem_Kekulize_def rdDepictor_Compute2DCoords_def in_place_def
    mol_GetNumConformers_def drawer_DrawMolecule_def getitem_def
    os_path_exists_def os_mkdir_def open_w_def file_write_def Draw_MolToFile_def
  by (intro frames_pure_call frames_call;
      simp add: quiet_def new_mol_def bindP_def returnP_def split_beta
        split: sum.splits option.splits node.splits)+

lemmas frames_prims = frames_exact[THEN frames_mono] frames_effect_call[THEN frames_mono]

lemmas frames_intros =
  frames_bindP frames_try_except frames_if frames_case_prod frames_case_option frames_basic
  frames_prims

lemma frames_moltosvg:
  "{ToBinary, Chem_Mol, Kekulize, GetNumConformers, Compute2DCoords, MolDraw2DSVG, DrawMolecule,
    FinishDrawing, GetDrawingText} \<subseteq> A \<Longrightarrow> frames A (moltosvg L v ms k)"
  unfolding moltosvg_def copy_of_def draw_svg_def
  by (intro frames_intros) auto

lemmas frames_all = frames_intros frames_moltosvg

lemma frames_show_dataset: "callback_apis \<subseteq> A \<Longrightarrow> frames A (show_dataset L i)"
  unfolding show_dataset_def
  by (intro frames_all) (auto simp: callback_apis_def)

lemma frames_save: "frames UNIV (save_svg L v p)" "frames UNIV (save_png L v p sz)"
  unfolding save_svg_def save_png_def by (intro frames_all; simp)+

lemma frames_subscript: "frames UNIV (subscript f g)"
  unfolding subscript_def by (intro frames_all) simp

lemma frames_export_cell:
  "(\<And>v p. frames UNIV (save v p)) \<Longrightarrow> frames UNIV (export_cell L ext save)"
  unfolding export_cell_def
  by (intro frames_all frames_subscript frames_setvars) simp_all

lemma frames_later_cells:
  "frames UNIV (cell8 L)" "frames UNIV (cell9 L)" "frames UNIV (cell11 L)" "frames UNIV (cell13 L)"
  "frames UNIV (cell15 L)" "frames UNIV (cell17 L)"
  unfolding cell8_def cell9_def cell11_def cell13_def cell15_def cell17_def print_adj_def
  by (intro frames_all frames_subscript frames_setvars frames_export_cell frames_save; simp)+

lemma snd_caught:
  "snd (try_except (bindP m (\<lambda>u. returnP ())) (returnP ()) w) = snd (m w)"
  "fst (try_except (bindP m (\<lambda>u. returnP ())) (returnP ()) w) = Inr ()"
  by (simp_all add: try_except_run bindP_run returnP_def split: sum.splits)

lemma interact_effect:
  assumes "\<And>v. frames UNIV (f v)"
  shows "dataset (vars (snd (interact L f rng w))) = dataset (vars w)
         \<and> dataset_smiles (vars (snd (interact L f rng w))) = dataset_smiles (vars w)
         \<and> (slider (snd (interact L f rng w)) = slider w \<or> slider (snd (interact L f rng w)) = Some rng)"
proof (cases "lib_effect L Interact w")
  case None
  define w1 where "w1 = w\<lparr>slider := Some rng, calls := calls w @ [(Interact, None)]\<rparr>"
  have "snd (interact L f rng w) = snd (f (iw_initial L rng) w1)"
    using None by (simp add: interact_def bindP_run call_def raised_simps snd_caught w1_def)
  moreover have "changes UNIV w1 (snd (f (iw_initial L rng) w1))"
    using assms by (simp add: frames_def)
  ultimately show ?thesis by (simp add: changes_def w1_def)
next
  case (Some e)
  then show ?thesis by (simp add: interact_def bindP_run call_def)
qed

lemma cell12_effect:
  "dataset (vars (snd (cell12 L w))) = dataset (vars w)
   \<and> dataset_smiles (vars (snd (cell12 L w))) = dataset_smiles (vars w)
   \<and> (slider (snd (cell12 L w)) = slider w
      \<or> (\<exists>ds. dataset (vars w) = Some ds \<and> slider (snd (cell12 L w)) = Some (0, int (length ds) - 1, 1)))"
proof -
  let ?w = "snd (effect_call L Np_set_printoptions w)"
  have w: "vars ?w = vars w" "slider ?w = slider w" by (simp_all add: effect_call_def call_def)
  show ?thesis
  proof (cases "fst (effect_call L Np_set_printoptions w)")
    case (Inl e)
    then show ?thesis by (simp add: cell12_def bindP_run w)
  next
    case (Inr u)
    show ?thesis
    proof (cases "dataset (vars w)")
      case None
      then show ?thesis using Inr by (simp add: cell12_def bindP_run getvar_def w)
    next
      case (Some ds)
      then show ?thesis
        using Inr interact_effect[of "show_dataset L" L "(0, int (length ds) - 1, 1)" ?w,
            OF frames_show_dataset[OF subset_UNIV]]
        by (simp add: cell12_def bindP_run getvar_def w)
    qed
  qed
qed

lemma later_cell_data:
  assumes "c \<in> set (later_cells L)"
  shows "dataset (vars (snd (c w))) = dataset (vars w)
         \<and> dataset_smiles (vars (snd (c w))) = dataset_smiles (vars w)"
proof (cases "c = cell12 L")
  case True
  then show ?thesis by (simp add: cell12_effect)
next
  case False
  then have "frames UNIV c" using assms by (auto simp: later_cells_def frames_later_cells)
  then show ?thesis by (simp add: frames_def changes_def)
qed

lemma session_data:
  assumes "session L w0 w"
  shows "dataset (vars w) = dataset (vars w0) \<and> dataset_smiles (vars w) = dataset_smiles (vars w0)"
  using assms
proof (induction rule: session.induct)
  case start
  show ?case by simp
next
  case (run_cell w c)
  then show ?case using later_cell_data[of c L w] by simp
next
  case (slide w rng v)
  then show ?case using frames_show_dataset[OF subset_UNIV, of L v] by (simp add: frames_def changes_def)
qed








lemma demo_cell7:
  "fst (cell7 demo_libs demo_world) = Inr ()"
  "dataset (vars demo_session0) = Some [demo_features ''C'', demo_features ''c1ccccc1'']"
  "dataset_smiles (vars demo_session0) = Some [''C'', ''c1ccccc1'']"
  "slider demo_session0 = None"
  by (simp_all add: demo_session0_def cell7_def bindP_def effect_call_def pure_call_def call_def
      setvars_def get_qm9_def default_def demo_libs_def demo_records_def demo_record_def
      demo_world_def demo_features_def)

lemma demo_effects:
  "lib_effect demo_libs a w = None" "os_fault demo_libs a p w = None"
  "iw_initial demo_libs (lo, hi, st) = lo + (hi - lo) div 2"
  "iw_delivers demo_libs (lo, hi, st) v = (lo \<le> v \<and> v \<le> hi)"
  by (simp_all add: demo_libs_def)

lemma demo_cell12: "slider demo_session1 = Some (0, 1, 1)"
proof -
  let ?w = "snd (effect_call demo_libs Np_set_printoptions demo_session0)"
  let ?w1 = "?w\<lparr>slider := Some (0, 1, 1), calls := calls ?w @ [(Interact, None)]\<rparr>"
  have e: "fst (effect_call demo_libs Np_set_printoptions demo_session0) = Inr ()"
      "vars ?w = vars demo_session0"
    by (simp_all add: effect_call_def call_def demo_effects)
  have "snd (cell12 demo_libs demo_session0) = snd (show_dataset demo_libs 0 ?w1)"
    using demo_cell7(2)
    by (simp add: cell12_def bindP_run e getvar_def interact_def call_def raised_simps snd_caught
        demo_effects)
  moreover have "changes UNIV ?w1 (snd (show_dataset demo_libs 0 ?w1))"
    using frames_show_dataset[OF subset_UNIV, of demo_libs 0] by (simp add: frames_def)
  ultimately show ?thesis by (simp add: demo_session1_def changes_def)
qed

lemma demo_session: "session demo_libs demo_session0 demo_session1"
    "session demo_libs demo_session0 demo_session2"
proof -
  show 1: "session demo_libs demo_session0 demo_session1"
    unfolding demo_session1_def
    by (rule session.run_cell[OF session.start]) (simp add: later_cells_def)
  show "session demo_libs demo_session0 demo_session2"
    unfolding demo_session2_def
    by (rule session.slide[OF 1 demo_cell12]) (simp add: demo_libs_def)
qed

subsection \<open>What the slider widget catches\<close>

lemma unhandled_caught:
  assumes "frames G m"
  shows "seg (unhandled G) (try_except (bindP m (\<lambda>u. returnP ())) (returnP ()))"
  unfolding seg_def
proof
  fix w
  obtain xs where xs: "calls (snd (m w)) = calls w @ xs" "\<forall>x\<in>set xs. fst x \<in> G"
    using assms by (auto simp: frames_def changes_def)
  have "unguarded_failures G xs = []"
    using xs(2) by (auto simp: unguarded_failures_def filter_empty_conv)
  then show "\<exists>xs. calls (snd (try_except (bindP m (\<lambda>u. returnP ())) (returnP ()) w)) = calls w @ xs
           \<and> unhandled G xs (fst (try_except (bindP m (\<lambda>u. returnP ())) (returnP ()) w))"
    using xs(1) by (simp add: snd_caught unhandled_Inr)
qed

lemma unhandled_interact:
  assumes "\<And>v. frames G (f v)"
  shows "seg (unhandled G) (interact L f rng)"
  unfolding interact_def
  by (intro unhandled_bindP unhandled_call unhandled_caught assms)
     (simp add: silent_def split: option.splits)

lemma unhandled_cell12: "callback_apis \<subseteq> G \<Longrightarrow> seg (unhandled G) (cell12 L)"
  unfolding cell12_def
  by (intro unhandled_bindP unhandled_prims unhandled_basic unhandled_interact frames_show_dataset)

subsection \<open>The dataset utility and the recorded output\<close>

lemma upt_8: "[0..<8] = [0, 1, 2, 3, 4, 5, 6, 7]"
  by (simp add: upt_rec)

lemma preprocess_records_filter:
  "preprocess_records pre names rs =
     map (\<lambda>r. ((fst (projr (pre r)), snd (projr (pre r)), map (property r) names), descriptor r))
       (filter (\<lambda>r. returns (pre r)) rs)"
  by (induction rs) (auto simp: returns_def split: sum.splits)

lemma count_failures_filter:
  "count_failures pre rs + length (filter (\<lambda>r. returns (pre r)) rs) = length rs"
  by (induction rs) (auto simp: returns_def split: sum.splits)

lemma get_qm9_run:
  "get_qm9 pre None True rs =
     (map (\<lambda>r. (fst (projr (pre r)), snd (projr (pre r)), map (property r) get_qm9_label_names))
        (filter (\<lambda>r. returns (pre r)) rs),
      Some (map descriptor (filter (\<lambda>r. returns (pre r)) rs)),
      \<lparr>n_fail = count_failures pre rs, n_success = length (filter (\<lambda>r. returns (pre r)) rs),
        n_total = length rs\<rparr>)"
  by (simp add: get_qm9_def default_def preprocess_records_filter comp_def)

lemma demo_get_qm9:
  "get_qm9 (cc_preprocess demo_libs) None True demo_records =
     ([demo_features ''C'', demo_features ''c1ccccc1''], Some [''C'', ''c1ccccc1''],
      \<lparr>n_fail = 1, n_success = 2, n_total = 3\<rparr>)"
  by (simp add: get_qm9_def default_def demo_libs_def demo_records_def demo_record_def
      demo_features_def)


subsection \<open>The shape of the calls\<close>

lemma then_shape_iff: "zs \<in> then_shape A B \<longleftrightarrow> (\<exists>xs\<in>A. \<exists>ys\<in>B. zs = xs @ ys)"
  by (auto simp: then_shape_def)

lemma then_shapeI: "xs \<in> A \<Longrightarrow> ys \<in> B \<Longrightarrow> xs @ ys \<in> then_shape A B"
  by (auto simp: then_shape_iff)

lemma then_shape_assoc: "then_shape (then_shape A B) C = then_shape A (then_shape B C)"
proof (rule set_eqI)
  fix zs
  show "zs \<in> then_shape (then_shape A B) C \<longleftrightarrow> zs \<in> then_shape A (then_shape B C)"
  proof
    assume "zs \<in> then_shape (then_shape A B) C"
    then obtain xs ys us where m: "xs \<in> A" "ys \<in> B" "us \<in> C" and zs: "zs = (xs @ ys) @ us"
      by (auto simp: then_shape_iff)
    show "zs \<in> then_shape A (then_shape B C)"
      using then_shapeI[OF m(1) then_shapeI[OF m(2) m(3)]] zs by simp
  next
    assume "zs \<in> then_shape A (then_shape B C)"
    then obtain xs ys us where m: "xs \<in> A" "ys \<in> B" "us \<in> C" and zs: "zs = xs @ (ys @ us)"
      by (auto simp: then_shape_iff)
    show "zs \<in> then_shape (then_shape A B) C"
      using then_shapeI[OF then_shapeI[OF m(1) m(2)] m(3)] zs by simp
  qed
qed

lemma then_shape_unit: "then_shape (just []) A = A" "then_shape A (just []) = A"
  by (rule set_eqI, simp add: then_shape_iff just_def)+

lemma then_shape_just:
  "then_shape (just xs) (just ys) = just (xs @ ys)"
  "then_shape (just xs) (then_shape (just ys) C) = then_shape (just (xs @ ys)) C"
  by (rule set_eqI, auto simp: then_shape_iff just_def)+

lemmas shape_simps = then_shape_assoc then_shape_unit then_shape_just

lemma follows_nonempty:
  assumes "seg (follows A) m"
  shows "A \<noteq> {}"
proof -
  obtain xs where "follows A xs (fst (m undefined))" using assms unfolding seg_def by blast
  then show ?thesis by (auto simp: follows_def split: sum.splits)
qed

lemma follows_bindP:
  assumes "seg (follows A) m" and "\<And>x. seg (follows B) (k x)"
  shows "seg (follows (then_shape A B)) (bindP m k)"
proof (rule seg_bindP[OF assms(1), where ?Q2.0 = "\<lambda>x. follows B"])
  show "seg (follows B) (k x)" for x by (rule assms(2))
  obtain zs where zs: "zs \<in> B" using follows_nonempty[OF assms(2)] by blast
  show "follows (then_shape A B) xs (Inl e)" if H: "follows A xs (Inl e)" for xs e
  proof -
    obtain ys where ys: "ys \<in> A" "prefix (map fst xs) ys" using H by (auto simp: follows_def)
    have "ys @ zs \<in> then_shape A B" using ys(1) zs by (auto simp: then_shape_iff)
    moreover have "prefix (map fst xs) (ys @ zs)" using ys(2) by (rule prefix_prefix)
    ultimately show ?thesis unfolding follows_def by (simp only: sum.case) (rule bexI)
  qed
  show "follows (then_shape A B) (xs @ ys) r" if H: "follows A xs (Inr x)" "follows B ys r"
    for xs x ys r
  proof (cases r)
    case (Inl e)
    obtain us where us: "us \<in> B" "prefix (map fst ys) us" using H(2) Inl by (auto simp: follows_def)
    have "map fst xs @ us \<in> then_shape A B" using H(1) us(1) by (auto simp: follows_def then_shape_iff)
    moreover have "prefix (map fst (xs @ ys)) (map fst xs @ us)" using us(2) by simp
    ultimately show ?thesis using Inl unfolding follows_def by (simp only: sum.case) (rule bexI)
  next
    case (Inr y)
    then show ?thesis using H by (auto simp: follows_def then_shape_iff)
  qed
qed

lemma follows_silent: "silent m \<Longrightarrow> seg (follows (just [])) m"
  by (simp add: seg_def silent_def follows_def just_def split: sum.splits)

lemma follows_basic:
  "seg (follows (just [])) (returnP x)" "seg (follows (just [])) (raiseP e)"
  "seg (follows (just [])) (getvar f)" "seg (follows (just [])) (setvars g)"
  by (simp_all add: follows_silent silent_simps)

lemma follows_call: "silent m \<Longrightarrow> seg (follows (just [a])) (call a m)"
  unfolding seg_def
proof
  fix w assume s: "silent m"
  have "follows (just [a]) [(a, raised (fst (call a m w)))] (fst (call a m w))"
    by (simp add: follows_def just_def split: sum.splits)
  then show "\<exists>xs. calls (snd (call a m w)) = calls w @ xs \<and> follows (just [a]) xs (fst (call a m w))"
    using call_calls[OF s] by blast
qed

lemma follows_pure_call: "seg (follows (just [a])) (pure_call a r)"
  unfolding pure_call_def by (rule follows_call) (simp add: silent_def)

lemma follows_eq: "seg (follows A') m \<Longrightarrow> A' = A \<Longrightarrow> seg (follows A) m"
  by simp

lemma follows_opt:
  assumes "seg (follows (just xs)) m"
  shows "seg (follows (opt xs)) (if b then m else returnP x)"
proof (cases b)
  case True
  have "follows (opt xs) ys r" if H: "follows (just xs) ys r" for ys and r :: "exn + 'a"
    using H by (cases r) (simp_all add: follows_def just_def opt_def)
  then have "\<exists>ys. calls (snd (m w)) = calls w @ ys \<and> follows (opt xs) ys (fst (m w))" for w
    using assms unfolding seg_def by blast
  then show ?thesis using True by (simp add: seg_def)
next
  case False
  then show ?thesis by (simp add: seg_def returnP_def follows_def opt_def)
qed

lemma follows_caught:
  assumes "seg (follows A) m"
  shows "seg (follows (cut A)) (try_except (bindP m (\<lambda>u. returnP ())) (returnP ()))"
  unfolding seg_def
proof
  fix w
  obtain xs where xs: "calls (snd (m w)) = calls w @ xs" "follows A xs (fst (m w))"
    using assms unfolding seg_def by blast
  have "\<exists>ys\<in>A. prefix (map fst xs) ys"
    using xs(2) by (cases "fst (m w)") (auto simp: follows_def)
  then have "map fst xs \<in> cut A" by (auto simp: cut_def in_set_prefixes)
  then show "\<exists>xs. calls (snd (try_except (bindP m (\<lambda>u. returnP ())) (returnP ()) w)) = calls w @ xs
           \<and> follows (cut A) xs (fst (try_except (bindP m (\<lambda>u. returnP ())) (returnP ()) w))"
    using xs(1) by (simp add: snd_caught follows_def)
qed

lemma follows_try_kekulize:
  assumes "seg (follows (just ys)) h"
  shows "seg (follows (then_shape (just [Kekulize]) (opt ys)))
           (try_except (bindP (Chem_Kekulize L mc) (\<lambda>u. returnP mc)) h)"
  unfolding seg_def
proof
  fix w
  let ?b = "bindP (Chem_Kekulize L mc) (\<lambda>u. returnP mc)"
  have b: "calls (snd (?b w)) = calls w @ [(Kekulize, raised (fst (?b w)))]"
    by (simp add: bindP_run Chem_Kekulize_def in_place_run returnP_def raised_simps split: sum.splits)
  show "\<exists>xs. calls (snd (try_except ?b h w)) = calls w @ xs
          \<and> follows (then_shape (just [Kekulize]) (opt ys)) xs (fst (try_except ?b h w))"
  proof (cases "fst (?b w)")
    case (Inl e)
    obtain zs where zs: "calls (snd (h (snd (?b w)))) = calls (snd (?b w)) @ zs"
        "follows (just ys) zs (fst (h (snd (?b w))))"
      using assms unfolding seg_def by blast
    have in_shape: "Kekulize # ys \<in> then_shape (just [Kekulize]) (opt ys)"
      by (simp add: then_shape_iff just_def opt_def)
    have "follows (then_shape (just [Kekulize]) (opt ys)) ([(Kekulize, raised (fst (?b w)))] @ zs)
            (fst (h (snd (?b w))))"
    proof (cases "fst (h (snd (?b w)))")
      case (Inl e')
      then have "prefix (Kekulize # map fst zs) (Kekulize # ys)"
        using zs(2) by (simp add: follows_def just_def)
      then show ?thesis using Inl in_shape unfolding follows_def
        by (simp only: sum.case list.map append.simps fst_conv) (rule bexI)
    next
      case (Inr y)
      then have "Kekulize # map fst zs = Kekulize # ys" using zs(2) by (simp add: follows_def just_def)
      then show ?thesis using Inr in_shape by (simp add: follows_def)
    qed
    then show ?thesis using Inl b zs(1) by (auto simp: try_except_run)
  next
    case (Inr x)
    then show ?thesis using b
      by (auto simp: try_except_run follows_def then_shape_iff just_def opt_def)
  qed
qed

lemma follows_calls:
  "seg (follows (just [GetItem])) (getitem xs i)"
  "seg (follows (just [Print])) (py_print L)"
  "seg (follows (just [a])) (effect_call L a)"
  "seg (follows (just [SVG_new])) (render_svg L s)"
  "seg (follows (just [MolFromSmiles])) (Chem_MolFromSmiles L s)"
  "seg (follows (just [Os_path_exists])) (os_path_exists p)"
  "seg (follows (just [Os_mkdir])) (os_mkdir L p)"
  "seg (follows (just [Open_w])) (open_w L p)"
  "seg (follows (just [File_write])) (file_write L p s)"
  "seg (follows (just [MolToFile])) (Draw_MolToFile L v p sz)"
  "seg (follows (just [ToBinary])) (mol_ToBinary L v)"
  "seg (follows (just [Chem_Mol])) (Chem_Mol_of L b)"
  "seg (follows (just [Compute2DCoords])) (rdDepictor_Compute2DCoords L mc)"
  "seg (follows (just [GetNumConformers])) (mol_GetNumConformers L mc)"
  "seg (follows (just [DrawMolecule])) (drawer_DrawMolecule L d mc)"
  unfolding getitem_def py_print_def effect_call_def render_svg_def Chem_MolFromSmiles_def
    os_path_exists_def os_mkdir_def open_w_def file_write_def Draw_MolToFile_def
    mol_ToBinary_def Chem_Mol_of_def rdDepictor_Compute2DCoords_def in_place_def
    mol_GetNumConformers_def drawer_DrawMolecule_def
  by (intro follows_pure_call follows_call;
      simp add: silent_def bindP_def new_mol_def returnP_def split_beta
        split: sum.splits option.splits node.splits)+

lemmas follows_rules =
  follows_bindP follows_opt seg_case_prod seg_case_option follows_basic follows_try_kekulize
  follows_calls follows_pure_call

lemma follows_copy_of: "seg (follows (just [ToBinary, Chem_Mol])) (copy_of L v)"
  unfolding copy_of_def
  by (rule follows_eq, (rule follows_rules)+) (simp add: shape_simps)

lemma follows_draw_svg:
  "seg (follows (just [MolDraw2DSVG, DrawMolecule, FinishDrawing, GetDrawingText])) (draw_svg L sz mc)"
  unfolding draw_svg_def
  by (rule follows_eq, (rule follows_rules)+) (simp add: shape_simps)

lemma moltosvg_default:
  "moltosvg L v ms None =
     bindP (copy_of L v) (\<lambda>mc.
     bindP (try_except (bindP (Chem_Kekulize L mc) (\<lambda>u. returnP mc)) (copy_of L v)) (\<lambda>mc.
     bindP (mol_GetNumConformers L mc) (\<lambda>n.
     bindP (if n = 0 then rdDepictor_Compute2DCoords L mc else returnP ()) (\<lambda>u.
     draw_svg L (default (450, 150) ms) mc))))"
  by (simp add: moltosvg_def default_def)

lemma follows_moltosvg: "seg (follows moltosvg_shape) (moltosvg L v ms None)"
  unfolding moltosvg_default
  by (rule follows_eq, (rule follows_copy_of follows_draw_svg follows_rules)+)
     (simp add: shape_simps moltosvg_shape_def)

lemma follows_show_dataset: "seg (follows show_dataset_shape) (show_dataset L i)"
  unfolding show_dataset_def
  by (rule follows_eq, (rule follows_moltosvg follows_rules)+)
     (simp add: shape_simps show_dataset_shape_def)

lemma follows_save_svg:
  "seg (follows (then_shape moltosvg_shape (just [Open_w, File_write]))) (save_svg L v p)"
  unfolding save_svg_def
  by (rule follows_eq, (rule follows_moltosvg follows_rules)+) (simp add: shape_simps)

lemma follows_save_png: "seg (follows (just [MolToFile])) (save_png L v p sz)"
  unfolding save_png_def by (rule follows_calls)

lemma follows_subscript: "seg (follows (just [GetItem])) (subscript f g)"
  unfolding subscript_def
  by (rule follows_eq, (rule follows_rules)+) (simp add: shape_simps)

lemma follows_print_adj: "seg (follows (just [GetItem, Print])) (print_adj L k)"
  unfolding print_adj_def
  by (rule follows_eq, (rule follows_rules)+) (simp add: shape_simps)

lemma follows_export_cell:
  assumes "\<And>v p. seg (follows T) (save v p)"
  shows "seg (follows (then_shape (just [Print, GetItem, MolFromSmiles]) T)) (export_cell L ext save)"
  unfolding export_cell_def
  by (rule follows_eq, (rule assms follows_subscript follows_rules)+) (simp add: shape_simps)

lemma follows_cell2: "seg (follows step_a) (cell2 L)"
  unfolding cell2_def
  by (rule follows_eq, (rule follows_rules)+) (simp add: shape_simps step_a_def)

lemma follows_cell5: "seg (follows step_b) (cell5 L)"
  unfolding cell5_def
  by (rule follows_eq, (rule follows_rules)+) (simp add: shape_simps step_b_def)

lemma follows_cell6: "seg (follows step_c) (cell6 L)"
  unfolding cell6_def
  by (rule follows_eq, (rule follows_rules)+) (simp add: shape_simps step_c_def)

lemma follows_cell7: "seg (follows step_d) (cell7 L)"
  unfolding cell7_def
  by (rule follows_eq, (rule follows_rules)+) (simp add: shape_simps step_d_def)

lemma follows_cell8: "seg (follows (just [Print, Print, Print, Print])) (cell8 L)"
  unfolding cell8_def
  by (rule follows_eq, (rule follows_rules)+) (simp add: shape_simps)

lemma follows_cell9:
  "seg (follows (just [GetItem, Print, GetItem, Print, Print, GetItem, Print, GetItem, Print,
                       GetItem, Print, GetItem, Print, Print])) (cell9 L)"
  unfolding cell9_def
  by (rule follows_eq, (rule follows_subscript follows_print_adj follows_rules)+)
     (simp add: shape_simps)

lemma follows_cell11: "seg (follows step_f) (cell11 L)"
  unfolding cell11_def
  by (rule follows_eq, (rule follows_subscript follows_moltosvg follows_rules)+)
     (simp add: shape_simps step_f_def)

lemma follows_interact:
  assumes "\<And>v. seg (follows A) (f v)"
  shows "seg (follows (then_shape (just [Interact]) (cut A))) (interact L f rng)"
  unfolding interact_def
  by (intro follows_bindP follows_call follows_caught assms)
     (simp add: silent_def split: option.splits)

lemma follows_cell12: "seg (follows step_g) (cell12 L)"
  unfolding cell12_def
  by (rule follows_eq, (rule follows_interact follows_show_dataset follows_rules)+)
     (simp add: shape_simps step_g_def)

lemma follows_mkdir_dirpath: "seg (follows (just [Os_mkdir])) (bindP (getvar dirpath) (os_mkdir L))"
  by (rule follows_eq, (rule follows_rules)+) (simp add: shape_simps)

lemma follows_cell13: "seg (follows (then_shape (just [Os_path_exists]) (opt [Os_mkdir]))) (cell13 L)"
  unfolding cell13_def
  by (rule follows_eq, (rule follows_mkdir_dirpath follows_rules)+) (simp add: shape_simps)

lemma follows_cell15:
  "seg (follows (then_shape (just [Print, GetItem, MolFromSmiles])
                  (then_shape moltosvg_shape (just [Open_w, File_write])))) (cell15 L)"
  unfolding cell15_def by (rule follows_export_cell) (rule follows_save_svg)

lemma follows_cell17: "seg (follows (just [Print, GetItem, MolFromSmiles, MolToFile])) (cell17 L)"
  unfolding cell17_def
  by (rule follows_eq, rule follows_export_cell, rule follows_save_png) (simp add: shape_simps)

lemma follows_notebook: "seg (follows notebook_shape) (run_all (notebook L))"
  unfolding notebook_def run_all.simps
  by (rule follows_eq,
      (rule follows_cell2 follows_cell5 follows_cell6 follows_cell7 follows_cell8 follows_cell9
         follows_cell11 follows_cell12 follows_cell13 follows_cell15 follows_cell17 follows_bindP
         follows_basic)+)
     (simp add: shape_simps notebook_shape_def step_e_def step_h_def)

subsection \<open>Runs of the small library\<close>

lemma preprocess_records_replicate:
  "pre r = Inr (a, m) \<Longrightarrow>
   preprocess_records pre names (replicate n r) =
     replicate n ((a, m, map (property r) names), descriptor r)"
  by (induction n) simp_all

lemma big_cell7:
  "cell7 big_libs w =
     (Inr (), w\<lparr>vars := (vars w)\<lparr>dataset := Some (replicate 7778 (demo_features ''C'')),
                                  dataset_smiles := Some (replicate 7778 ''C'')\<rparr>,
               calls := calls w @ [(GGNNPreprocessor_new, None), (Get_qm9, None)]\<rparr>)"
proof -
  have "cc_preprocess big_libs (demo_record ''C'') = Inr ([6], [[[0]], [[0]], [[0]], [[0]]])"
    by (simp add: big_libs_def demo_libs_def demo_record_def)
  then show ?thesis
    by (simp add: cell7_def bindP_def effect_call_def pure_call_def call_def raised_def
        setvars_def get_qm9_def default_def preprocess_records_replicate demo_features_def
        big_libs_def demo_libs_def demo_record_def)
qed

lemmas run_defs =
  bindP_def returnP_def raiseP_def try_except_def call_def pure_call_def getvar_def setvars_def
  raised_def default_def effect_call_def py_print_def getitem_def item_def subscript_def
  print_adj_def Chem_MolFromSmiles_def new_mol_def render_svg_def moltosvg_def copy_of_def
  mol_ToBinary_def Chem_Mol_of_def Chem_Kekulize_def in_place_def mol_GetNumConformers_def
  rdDepictor_Compute2DCoords_def draw_svg_def drawer_DrawMolecule_def os_path_exists_def
  exists_at_def os_mkdir_def mkdir_def parent_error_def parent_is_file_def parent_exists_def
  create_def open_w_def file_write_def save_svg_def Draw_MolToFile_def save_png_def
  export_cell_def interact_def show_dataset_def

lemma big_simps:
  "lib_effect big_libs a w = None" "os_fault big_libs a p w = None"
  "iw_initial big_libs (lo, hi, st) = lo + (hi - lo) div 2"
  "cc_get_qm9_filepath big_libs = Inr ''qm9.csv''"
  "rd_MolFromSmiles big_libs ''C'' = Inr (Some (''C'', False, 0))"
  "rd_ToBinary big_libs (s, k, c) = Inr s" "rd_Mol big_libs b = Inr (b, False, 0)"
  "rd_Kekulize big_libs (''C'', k, c) = (Inr (), (''C'', True, c))"
  "rd_GetNumConformers big_libs (s, k, c) = Inr c"
  "rd_Compute2DCoords big_libs (s, k, c) = (Inr (), (s, k, 1))"
  "rd_MolDraw2DSVG big_libs x y = Inr ''<svg:svg>''"
  "rd_DrawMolecule big_libs d (s, k, c) = Inr (d @ s)"
  "rd_FinishDrawing big_libs d = Inr (d @ ''</svg:svg>'')"
  "rd_GetDrawingText big_libs d = Inr d"
  "rd_MolToFile big_libs (Some (s, k, c)) (600, 600) = Inr (''PNG 600x600 '' @ s)"
  "ip_SVG big_libs s = Inr s"
  by (simp_all add: big_libs_def demo_libs_def)

lemma demo_world_simps:
  "files demo_world = Map.empty" "calls demo_world = []" "next_ref demo_world = 1"
  "vars demo_world = no_globals" "slider demo_world = None"
  "mols demo_world a = (''c1ccccc1'', False, 0)"
  by (simp_all add: demo_world_def)

lemma big_run:
  "fst (run_all (notebook big_libs) demo_world) = Inr ()"
  by (simp add: demo_world_simps notebook_def cell2_def cell5_def cell6_def big_cell7 cell8_def cell9_def
      cell11_def cell12_def cell13_def cell15_def cell17_def run_defs big_simps demo_features_def)

lemma demo_session0_eq:
  "demo_session0 =
     demo_world\<lparr>vars := no_globals\<lparr>dataset := Some [demo_features ''C'', demo_features ''c1ccccc1''],
                                     dataset_smiles := Some [''C'', ''c1ccccc1'']\<rparr>,
                 calls := [(GGNNPreprocessor_new, None), (Get_qm9, None)]\<rparr>"
  by (simp add: demo_session0_def cell7_def bindP_def effect_call_def pure_call_def call_def
      setvars_def get_qm9_def default_def demo_libs_def demo_records_def demo_record_def
      demo_world_def demo_features_def raised_def)

lemma demo_callback_caught:
  "fst (cell12 demo_no_drawing demo_session0) = Inr ()"
  "calls (snd (cell12 demo_no_drawing demo_session0)) =
     [(GGNNPreprocessor_new, None), (Get_qm9, None), (Np_set_printoptions, None), (Interact, None),
      (GetItem, None), (Print, None), (GetItem, None), (Print, None), (Print, None),
      (GetItem, None), (MolFromSmiles, None), (ToBinary, None), (Chem_Mol, None), (Kekulize, None),
      (GetNumConformers, None), (Compute2DCoords, None), (MolDraw2DSVG, None),
      (DrawMolecule, Some (LibraryError ''no drawing''))]"
  "fst (bindP (cell12 demo_no_drawing) (\<lambda>u. cell13 demo_no_drawing) demo_session0) = Inr ()"
  "map fst (new_calls (bindP (cell12 demo_no_drawing) (\<lambda>u. cell13 demo_no_drawing)) demo_session0) =
     [Np_set_printoptions, Interact, GetItem, Print, GetItem, Print, Print, GetItem, MolFromSmiles,
      ToBinary, Chem_Mol, Kekulize, GetNumConformers, Compute2DCoords, MolDraw2DSVG, DrawMolecule,
      Os_path_exists, Os_mkdir]"
  by (simp_all add: new_calls_def demo_session0_eq cell12_def cell13_def run_defs
      demo_no_drawing_def demo_libs_def demo_world_def no_globals_def)

lemma demo_methane_calls:
  "map fst (new_calls (moltosvg demo_libs (Some 0) None None) demo_methane) =
     [ToBinary, Chem_Mol, Kekulize, GetNumConformers, Compute2DCoords,
      MolDraw2DSVG, DrawMolecule, FinishDrawing, GetDrawingText]"
  "map fst (new_calls (moltosvg demo_conformers (Some 0) None None) demo_methane) =
     [ToBinary, Chem_Mol, Kekulize, GetNumConformers,
      MolDraw2DSVG, DrawMolecule, FinishDrawing, GetDrawingText]"
  by (simp_all add: new_calls_def run_defs demo_methane_def demo_conformers_def demo_libs_def
      demo_world_def)

lemma demo_cell13_calls:
  "new_calls (cell13 demo_libs) demo_world = [(Os_path_exists, None), (Os_mkdir, None)]"
  "new_calls (cell13 demo_libs) (snd (cell13 demo_libs demo_world)) = [(Os_path_exists, None)]"
  "files (snd (cell13 demo_libs demo_world)) = [[''images''] \<mapsto> Dir]"
  by (simp_all add: new_calls_def cell13_run mkdir_images Let_def exists_at_def demo_effects
      demo_world_simps)

lemma demo_benzene_calls:
  "map fst (new_calls (moltosvg demo_libs (Some 0) None None) demo_world) =
     [ToBinary, Chem_Mol, Kekulize, ToBinary, Chem_Mol, GetNumConformers, Compute2DCoords,
      MolDraw2DSVG, DrawMolecule, FinishDrawing, GetDrawingText]"
  by (simp add: new_calls_def demo_moltosvg demo_world_simps)

section \<open>The claims\<close>

text \<open>
  C1. The adjacency feature of a record is a stack of four square N-by-N matrices, one per
  bond type in the order single, double, triple, aromatic, whose diagonal entries are set
  to the sentinel 1. The preprocessor that builds it is not among the sources; what the
  notebook shows of it is the recorded output of the inspection cell In [9]. There the
  shape is right, (4, 8, 8) for the 8 atoms, but every entry of the four diagonals is 0,
  against the claim and against the comment of the cell itself.
\<close>

theorem recorded_adjacency_diagonal:
  "length recorded_atom = 8
   \<and> shape3 recorded_adj = (4, replicate 4 8, replicate 4 (replicate 8 8))
   \<and> map diagonal recorded_adj = replicate 4 (replicate 8 0)
   \<and> 1 \<notin> set (concat (map diagonal recorded_adj))"
  by (simp add: recorded_atom_def recorded_adj_def shape3_def diagonal_def upt_8 numeral_eq_Suc)

text \<open>
  C2, as amended. In every function and every cell of the notebook, a call that raises
  ends the function or cell with that exception as the outcome, nothing being called
  after it: there is no recovery and no retry, with two exceptions. A failure of
  \<^verbatim>\<open>Chem.Kekulize\<close> inside \<open>moltosvg\<close> is caught by the bare \<^verbatim>\<open>except\<close>, and \<open>moltosvg\<close> goes on
  with a fresh copy of the molecule. And a failure of any call of \<open>show_dataset\<close>, when
  \<^verbatim>\<open>interact\<close> runs it in cell In [12], is caught by the slider widget: the cell returns.
  A failure of the two calls the cell makes itself, \<^verbatim>\<open>np.set_printoptions\<close> and
  \<^verbatim>\<open>interact\<close>, ends the cell like any other.
\<close>

theorem failures_propagate_unless_caught:
  "seg (unhandled {Kekulize}) (moltosvg L v molSize kekulize)
   \<and> seg (unhandled {Kekulize}) (render_svg L s)
   \<and> seg (unhandled {Kekulize}) (show_dataset L i)
   \<and> seg (unhandled {Kekulize}) (save_svg L v p)
   \<and> seg (unhandled {Kekulize}) (save_png L v p sz)
   \<and> seg (unhandled {Kekulize}) (cell2 L) \<and> seg (unhandled {Kekulize}) (cell5 L)
   \<and> seg (unhandled {Kekulize}) (cell6 L) \<and> seg (unhandled {Kekulize}) (cell7 L)
   \<and> seg (unhandled {Kekulize}) (cell8 L) \<and> seg (unhandled {Kekulize}) (cell9 L)
   \<and> seg (unhandled {Kekulize}) (cell11 L) \<and> seg (unhandled callback_apis) (cell12 L)
   \<and> seg (unhandled {Kekulize}) (cell13 L) \<and> seg (unhandled {Kekulize}) (cell15 L)
   \<and> seg (unhandled {Kekulize}) (cell17 L)
   \<and> Np_set_printoptions \<notin> callback_apis \<and> Interact \<notin> callback_apis"
  by (simp add: unhandled_moltosvg unhandled_prims unhandled_show_dataset unhandled_save_svg
      unhandled_save_png unhandled_cells unhandled_cell12 unhandled_cells_svg callback_apis_def)

text \<open>
  C2 as stated, with no failure caught, fails twice. On benzene, kekulization raises in
  the small library, \<open>moltosvg\<close> catches the exception, makes eight more calls and returns
  the drawing. And with a drawer that refuses every molecule, \<open>show_dataset\<close> raises when
  \<^verbatim>\<open>interact\<close> runs it, and the cell In [12] returns all the same.
\<close>

theorem handlers_catch_failures:
  "(Kekulize, Some (LibraryError ''Can't kekulize mol''))
     \<in> set (calls (snd (moltosvg demo_libs (Some 0) None None demo_world)))
   \<and> fst (moltosvg demo_libs (Some 0) None None demo_world) = Inr ''<svg:svg>c1ccccc1</svg:svg>''
   \<and> \<not> seg (unhandled {}) (moltosvg demo_libs (Some 0) None None)
   \<and> (DrawMolecule, Some (LibraryError ''no drawing''))
     \<in> set (calls (snd (cell12 demo_no_drawing demo_session0)))
   \<and> fst (cell12 demo_no_drawing demo_session0) = Inr ()
   \<and> \<not> seg (unhandled {Kekulize}) (cell12 demo_no_drawing)"
proof -
  have 1: "\<not> seg (unhandled {}) (moltosvg demo_libs (Some 0) None None)"
  proof
    assume "seg (unhandled {}) (moltosvg demo_libs (Some 0) None None)"
    then obtain xs where
      "calls (snd (moltosvg demo_libs (Some 0) None None demo_world)) = calls demo_world @ xs"
      "unhandled {} xs (fst (moltosvg demo_libs (Some 0) None None demo_world))"
      unfolding seg_def by blast
    moreover have "calls demo_world = []" by (simp add: demo_world_def)
    ultimately show False
      by (auto simp: demo_moltosvg unhandled_def unguarded_failures_def)
  qed
  have 2: "\<not> seg (unhandled {Kekulize}) (cell12 demo_no_drawing)"
  proof
    assume "seg (unhandled {Kekulize}) (cell12 demo_no_drawing)"
    then obtain xs where
      "calls (snd (cell12 demo_no_drawing demo_session0)) = calls demo_session0 @ xs"
      "unhandled {Kekulize} xs (fst (cell12 demo_no_drawing demo_session0))"
      unfolding seg_def by blast
    moreover have "calls demo_session0 = [(GGNNPreprocessor_new, None), (Get_qm9, None)]"
      by (simp add: demo_session0_eq)
    ultimately show False
      by (auto simp: demo_callback_caught unhandled_def unguarded_failures_def)
  qed
  show ?thesis using 1 2 by (simp add: demo_moltosvg demo_callback_caught)
qed

text \<open>
  C3. \<open>get_qm9\<close> with a preprocessor, \<open>labels = None\<close> and \<open>return_smiles = True\<close> returns
  the feature tuples and the descriptors as two collections of the same length: the
  descriptors are those of the records the preprocessor accepts, in the order of the
  records, and the tuple and the descriptor at an index come from the same record. The
  report counts the accepted and the rejected records, and its total is the number of
  records.
\<close>

theorem get_qm9_parallel:
  assumes "get_qm9 pre None True rs = (ds, ssopt, rep)"
  shows "\<exists>ss. ssopt = Some ss \<and> length ss = length ds
           \<and> ss = map descriptor (filter (\<lambda>r. returns (pre r)) rs)
           \<and> (\<forall>i<length ds. \<exists>r\<in>set rs. ss ! i = descriptor r
                  \<and> pre r = Inr (fst (ds ! i), fst (snd (ds ! i)))
                  \<and> snd (snd (ds ! i)) = map (property r) get_qm9_label_names)
           \<and> n_total rep = length rs \<and> n_success rep = length ds
           \<and> n_fail rep + n_success rep = n_total rep"
proof -
  let ?ok = "filter (\<lambda>r. returns (pre r)) rs"
  have ds: "ds = map (\<lambda>r. (fst (projr (pre r)), snd (projr (pre r)), map (property r) get_qm9_label_names)) ?ok"
    and ss: "ssopt = Some (map descriptor ?ok)"
    and rep: "rep = \<lparr>n_fail = count_failures pre rs, n_success = length ?ok, n_total = length rs\<rparr>"
    using assms by (simp_all add: get_qm9_run)
  have each: "\<exists>r\<in>set rs. map descriptor ?ok ! i = descriptor r
                  \<and> pre r = Inr (fst (ds ! i), fst (snd (ds ! i)))
                  \<and> snd (snd (ds ! i)) = map (property r) get_qm9_label_names"
    if "i < length ds" for i
  proof -
    have i: "i < length ?ok" using that by (simp add: ds)
    then have "?ok ! i \<in> set ?ok" by (rule nth_mem)
    then have "?ok ! i \<in> set rs" and "returns (pre (?ok ! i))" by simp_all
    then show ?thesis using i by (intro bexI[of _ "?ok ! i"]) (auto simp: ds returns_def)
  qed
  show ?thesis using each count_failures_filter[of pre rs] by (simp add: ds ss rep)
qed

text \<open>Three records, of which the preprocessor rejects the second.\<close>

theorem get_qm9_parallel_witness:
  "get_qm9 (cc_preprocess demo_libs) None True demo_records =
     ([demo_features ''C'', demo_features ''c1ccccc1''], Some [''C'', ''c1ccccc1''],
      \<lparr>n_fail = 1, n_success = 2, n_total = 3\<rparr>)
   \<and> length [''C'', ''c1ccccc1''] = length [demo_features ''C'', demo_features ''c1ccccc1'']
   \<and> (\<exists>r\<in>set demo_records. [''C'', ''c1ccccc1''] ! 1 = descriptor r
        \<and> snd (snd ([demo_features ''C'', demo_features ''c1ccccc1''] ! 1)) =
            map (property r) get_qm9_label_names)
   \<and> n_total \<lparr>n_fail = 1, n_success = 2, n_total = 3\<rparr> = length demo_records"
proof -
  have "\<forall>i<length [demo_features ''C'', demo_features ''c1ccccc1''].
          \<exists>r\<in>set demo_records. [''C'', ''c1ccccc1''] ! i = descriptor r
            \<and> cc_preprocess demo_libs r =
                Inr (fst ([demo_features ''C'', demo_features ''c1ccccc1''] ! i),
                     fst (snd ([demo_features ''C'', demo_features ''c1ccccc1''] ! i)))
            \<and> snd (snd ([demo_features ''C'', demo_features ''c1ccccc1''] ! i)) =
                map (property r) get_qm9_label_names"
    and "n_total \<lparr>n_fail = 1, n_success = 2, n_total = 3\<rparr> = length demo_records"
    using get_qm9_parallel[OF demo_get_qm9] by blast+
  then have "\<exists>r\<in>set demo_records. [''C'', ''c1ccccc1''] ! 1 = descriptor r
        \<and> snd (snd ([demo_features ''C'', demo_features ''c1ccccc1''] ! 1)) =
            map (property r) get_qm9_label_names"
    and "n_total \<lparr>n_fail = 1, n_success = 2, n_total = 3\<rparr> = length demo_records"
    by (fastforce, simp)
  then show ?thesis using demo_get_qm9 by simp
qed

text \<open>
  C4. The label names are a fixed list of 15 distinct strings: the properties of columns
  3 to 17 of the schema the notebook documents, in its order, and as many as the label
  entries the notebook prints for record 7777. Every tuple extracted with \<open>labels = None\<close>
  has a label vector of length 15, the properties of its record under these names, in
  this order.
\<close>

theorem label_schema:
  "length get_qm9_label_names = 15 \<and> distinct get_qm9_label_names
   \<and> get_qm9_label_names = map (\<lambda>(i, name, unit). name) (filter (\<lambda>(i, name, unit). 3 \<le> i) readme_table)
   \<and> length recorded_labels = length get_qm9_label_names
   \<and> (\<forall>f\<in>set (fst (get_qm9 pre None True rs)).
        length (snd (snd f)) = 15
        \<and> (\<exists>r\<in>set rs. snd (snd f) = map (property r) get_qm9_label_names))"
proof -
  have "length get_qm9_label_names = 15" "distinct get_qm9_label_names"
    "get_qm9_label_names = map (\<lambda>(i, name, unit). name) (filter (\<lambda>(i, name, unit). 3 \<le> i) readme_table)"
    "length recorded_labels = length get_qm9_label_names"
    by (simp_all add: get_qm9_label_names_def readme_table_def recorded_labels_def)
  then show ?thesis by (auto simp: get_qm9_run)
qed

theorem label_schema_witness:
  "demo_features ''C'' \<in> set (fst (get_qm9 (cc_preprocess demo_libs) None True demo_records))
   \<and> length (snd (snd (demo_features ''C''))) = 15
   \<and> (\<exists>r\<in>set demo_records. snd (snd (demo_features ''C'')) = map (property r) get_qm9_label_names)"
proof -
  have m: "demo_features ''C'' \<in> set (fst (get_qm9 (cc_preprocess demo_libs) None True demo_records))"
    by (simp add: demo_get_qm9)
  show ?thesis
    using label_schema[of "cc_preprocess demo_libs" demo_records] m by blast
qed

text \<open>
  C5, as amended. Run top to bottom, the notebook makes its calls in the order of the
  steps (a) to (h), each step a sequence of external calls; a run that raises has made an
  initial part of such a sequence. The sequence is fixed but for four places where the
  notebook does branch on results: \<^verbatim>\<open>os.mkdir\<close> is called only when \<^verbatim>\<open>os.path.exists\<close> said
  no; inside \<open>moltosvg\<close> the copy is made a second time when kekulization raised, and
  \<^verbatim>\<open>Compute2DCoords\<close> is called only without a conformer; and the first run of
  \<open>show_dataset\<close> by the slider of step (g) can stop at any of its calls, the widget
  catching the exception, after which step (h) follows.
\<close>

theorem notebook_steps_in_order:
  "seg (follows notebook_shape) (run_all (notebook L))"
  by (rule follows_notebook)

text \<open>A run that returns: the small library with 7778 records of methane.\<close>

theorem notebook_steps_in_order_witness:
  "fst (run_all (notebook big_libs) demo_world) = Inr ()
   \<and> map fst (calls (snd (run_all (notebook big_libs) demo_world))) \<in> notebook_shape"
proof -
  obtain xs where
    "calls (snd (run_all (notebook big_libs) demo_world)) = calls demo_world @ xs"
    "follows notebook_shape xs (fst (run_all (notebook big_libs) demo_world))"
    using notebook_steps_in_order[of big_libs] unfolding seg_def by blast
  then show ?thesis by (simp add: big_run demo_world_simps follows_def)
qed

text \<open>
  C5 as stated, with no branching on results, fails at each of the four places. The cell
  In [13] calls \<^verbatim>\<open>os.mkdir\<close> in a session without the directory and does not in the session
  it leaves behind. \<open>moltosvg\<close> copies benzene twice, kekulization raising, and methane
  once; it computes coordinates for a copy without a conformer and not for one with.
  And with a drawer that refuses every molecule, the first run of \<open>show_dataset\<close> stops
  at \<^verbatim>\<open>DrawMolecule\<close>, and the cell after In [12] goes on from there.
\<close>

theorem calls_depend_on_results:
  "new_calls (cell13 demo_libs) demo_world = [(Os_path_exists, None), (Os_mkdir, None)]
   \<and> new_calls (cell13 demo_libs) (snd (cell13 demo_libs demo_world)) = [(Os_path_exists, None)]
   \<and> map fst (new_calls (moltosvg demo_libs (Some 0) None None) demo_world) =
       [ToBinary, Chem_Mol, Kekulize, ToBinary, Chem_Mol, GetNumConformers, Compute2DCoords,
        MolDraw2DSVG, DrawMolecule, FinishDrawing, GetDrawingText]
   \<and> map fst (new_calls (moltosvg demo_libs (Some 0) None None) demo_methane) =
       [ToBinary, Chem_Mol, Kekulize, GetNumConformers, Compute2DCoords,
        MolDraw2DSVG, DrawMolecule, FinishDrawing, GetDrawingText]
   \<and> map fst (new_calls (moltosvg demo_conformers (Some 0) None None) demo_methane) =
       [ToBinary, Chem_Mol, Kekulize, GetNumConformers,
        MolDraw2DSVG, DrawMolecule, FinishDrawing, GetDrawingText]
   \<and> fst (bindP (cell12 demo_no_drawing) (\<lambda>u. cell13 demo_no_drawing) demo_session0) = Inr ()
   \<and> map fst (new_calls (bindP (cell12 demo_no_drawing) (\<lambda>u. cell13 demo_no_drawing)) demo_session0) =
       [Np_set_printoptions, Interact, GetItem, Print, GetItem, Print, Print, GetItem, MolFromSmiles,
        ToBinary, Chem_Mol, Kekulize, GetNumConformers, Compute2DCoords, MolDraw2DSVG, DrawMolecule,
        Os_path_exists, Os_mkdir]"
  by (simp add: demo_cell13_calls demo_methane_calls demo_callback_caught demo_benzene_calls)

text \<open>
  C6. In every state a session reaches after preprocessing, by the later cells in any
  order and any number of times and by the slider handing values to \<open>show_dataset\<close>,
  the globals \<open>dataset\<close> and \<open>dataset_smiles\<close> are bound to what preprocessing bound them
  to; so \<open>dataset[i]\<close> and \<open>dataset_smiles[i]\<close> are the same at every such point.
\<close>

theorem dataset_never_mutated:
  assumes "session L w0 w"
  shows "dataset (vars w) = dataset (vars w0) \<and> dataset_smiles (vars w) = dataset_smiles (vars w0)"
  using assms by (rule session_data)

text \<open>A session: preprocessing, the slider cell In [12], and the slider at 1.\<close>

theorem dataset_never_mutated_witness:
  "session demo_libs demo_session0 demo_session2
   \<and> dataset (vars demo_session2) = Some [demo_features ''C'', demo_features ''c1ccccc1'']
   \<and> dataset_smiles (vars demo_session2) = Some [''C'', ''c1ccccc1'']"
  using dataset_never_mutated[OF demo_session(2)] demo_session(2) by (simp add: demo_cell7)

text \<open>
  C7. When \<open>save_svg\<close> returns, the file at \<open>filepath\<close> holds exactly the string \<open>moltosvg\<close>
  returned for the molecule; and whether it returns or raises, no other file has
  changed. When \<open>save_png\<close> returns, it has made the one call \<^verbatim>\<open>Draw.MolToFile\<close> and the file
  holds the image RDKit produced at the size the caller gave, or at (600, 600) when the
  caller gave none.
\<close>

theorem export_helpers:
  "(fst (save_svg L v p w) = Inr () \<longrightarrow>
      (\<exists>s. fst (moltosvg L v None None w) = Inr s
           \<and> files (snd (save_svg L v p w)) = (files w)(p \<mapsto> File s)))
   \<and> (\<forall>q. q \<noteq> p \<longrightarrow> files (snd (save_svg L v p w)) q = files w q)
   \<and> (fst (save_png L v p (Some sz) w) = Inr () \<longrightarrow>
      (\<exists>img. rd_MolToFile L (map_option (mols w) v) sz = Inr img
           \<and> files (snd (save_png L v p (Some sz) w)) = (files w)(p \<mapsto> File img)
           \<and> calls (snd (save_png L v p (Some sz) w)) = calls w @ [(MolToFile, None)]))
   \<and> (fst (save_png L v p None w) = Inr () \<longrightarrow>
      (\<exists>img. rd_MolToFile L (map_option (mols w) v) (600, 600) = Inr img
           \<and> files (snd (save_png L v p None w)) = (files w)(p \<mapsto> File img)
           \<and> calls (snd (save_png L v p None w)) = calls w @ [(MolToFile, None)]))"
proof -
  have a: "fst (save_svg L v p w) = Inr () \<longrightarrow>
      (\<exists>s. fst (moltosvg L v None None w) = Inr s
           \<and> files (snd (save_svg L v p w)) = (files w)(p \<mapsto> File s))"
    by (auto simp: save_svg_run open_write_files moltosvg_files split: sum.splits)
  have b: "\<forall>q. q \<noteq> p \<longrightarrow> files (snd (save_svg L v p w)) q = files w q"
    by (auto simp: save_svg_run open_write_files moltosvg_files split: sum.splits)
  have c: "fst (save_png L v p (Some sz) w) = Inr () \<longrightarrow>
      (\<exists>img. rd_MolToFile L (map_option (mols w) v) sz = Inr img
           \<and> files (snd (save_png L v p (Some sz) w)) = (files w)(p \<mapsto> File img)
           \<and> calls (snd (save_png L v p (Some sz) w)) = calls w @ [(MolToFile, None)])"
    using save_png_run[of L v p "Some sz" w] by simp
  have d: "fst (save_png L v p None w) = Inr () \<longrightarrow>
      (\<exists>img. rd_MolToFile L (map_option (mols w) v) (600, 600) = Inr img
           \<and> files (snd (save_png L v p None w)) = (files w)(p \<mapsto> File img)
           \<and> calls (snd (save_png L v p None w)) = calls w @ [(MolToFile, None)])"
    using save_png_run[of L v p None w] by simp
  show ?thesis using a b c d by blast
qed

text \<open>
  Benzene in the small library, whose image says whether it was drawn at 600 by 600:
  the drawing is written to one file, an image at 300 by 200 and an image at the
  default size to two others.
\<close>

theorem export_helpers_witness:
  "fst (save_svg demo_libs (Some 0) [''mol.svg''] demo_world) = Inr ()
   \<and> files (snd (save_svg demo_libs (Some 0) [''mol.svg''] demo_world)) =
       [[''mol.svg''] \<mapsto> File ''<svg:svg>c1ccccc1</svg:svg>'']
   \<and> fst (save_png demo_libs (Some 0) [''small.png''] (Some (300, 200)) demo_world) = Inr ()
   \<and> files (snd (save_png demo_libs (Some 0) [''small.png''] (Some (300, 200)) demo_world)) =
       [[''small.png''] \<mapsto> File ''PNG c1ccccc1'']
   \<and> fst (save_png demo_libs (Some 0) [''mol.png''] None demo_world) = Inr ()
   \<and> files (snd (save_png demo_libs (Some 0) [''mol.png''] None demo_world)) =
       [[''mol.png''] \<mapsto> File ''PNG 600x600 c1ccccc1'']"
proof -
  have f: "files demo_world = Map.empty" "mols demo_world 0 = (''c1ccccc1'', False, 0)"
    by (simp_all add: demo_world_def)
  have a: "fst (save_svg demo_libs (Some 0) [''mol.svg''] demo_world) = Inr ()"
    by (simp add: save_svg_run demo_moltosvg open_write_demo moltosvg_files f demo_effects)
  have b: "fst (save_png demo_libs (Some 0) [n] sz demo_world) = Inr ()" for n sz
    by (simp add: save_png_def Draw_MolToFile_def call_def f create_def parent_error_def
        parent_is_file_def parent_exists_def demo_libs_def)
  have m: "rd_MolToFile demo_libs (map_option (mols demo_world) (Some 0)) (300, 200) = Inr ''PNG c1ccccc1''"
      "rd_MolToFile demo_libs (map_option (mols demo_world) (Some 0)) (600, 600) = Inr ''PNG 600x600 c1ccccc1''"
    by (simp_all add: f demo_libs_def)
  obtain s where s: "fst (moltosvg demo_libs (Some 0) None None demo_world) = Inr s"
      "files (snd (save_svg demo_libs (Some 0) [''mol.svg''] demo_world)) =
         (files demo_world)([''mol.svg''] \<mapsto> File s)"
    using export_helpers[where L = demo_libs and v = "Some 0" and p = "[''mol.svg'']"
        and w = demo_world] a by blast
  obtain img where img:
      "rd_MolToFile demo_libs (map_option (mols demo_world) (Some 0)) (300, 200) = Inr img"
      "files (snd (save_png demo_libs (Some 0) [''small.png''] (Some (300, 200)) demo_world)) =
         (files demo_world)([''small.png''] \<mapsto> File img)"
    using export_helpers[where L = demo_libs and v = "Some 0" and p = "[''small.png'']"
        and w = demo_world and sz = "(300, 200)"] b by blast
  obtain img' where img':
      "rd_MolToFile demo_libs (map_option (mols demo_world) (Some 0)) (600, 600) = Inr img'"
      "files (snd (save_png demo_libs (Some 0) [''mol.png''] None demo_world)) =
         (files demo_world)([''mol.png''] \<mapsto> File img')"
    using export_helpers[where L = demo_libs and v = "Some 0" and p = "[''mol.png'']"
        and w = demo_world] b by blast
  have "s = ''<svg:svg>c1ccccc1</svg:svg>''" using s(1) by (simp add: demo_moltosvg)
  moreover have "img = ''PNG c1ccccc1''" using img(1) m by simp
  moreover have "img' = ''PNG 600x600 c1ccccc1''" using img'(1) m by simp
  ultimately show ?thesis using a b s(2) img(2) img'(2) by (simp add: f)
qed



text \<open>
  C9. \<open>moltosvg\<close> on a parsed molecule (an object of the session), when the RDKit calls
  it makes on this molecule without a handler return: it returns the text of the
  drawing of a copy of the molecule, the copy being kekulized in place, or replaced by a
  second fresh copy when kekulization raises, and given 2D coordinates exactly when it
  has no conformer (the call \<^verbatim>\<open>Compute2DCoords\<close> is made in that case only); and every
  molecule object that existed before the call, the argument among them, is left as it
  was. The size is (450, 150) and the molecule is kekulized unless the caller says
  otherwise.
\<close>

theorem moltosvg_total:
  assumes "a < next_ref w"
    and "unguarded_calls_return L (mols w a)
           (case molSize of None \<Rightarrow> (450, 150) | Some sz \<Rightarrow> sz) (kekulize \<noteq> Some False)"
  shows "fst (moltosvg L (Some a) molSize kekulize w) =
           Inr (drawing_text L (case molSize of None \<Rightarrow> (450, 150) | Some sz \<Rightarrow> sz)
                  (with_coords L (drawn_copy L (mols w a) (kekulize \<noteq> Some False))))
         \<and> calls (snd (moltosvg L (Some a) molSize kekulize w)) =
           calls w @ moltosvg_calls L (mols w a) (kekulize \<noteq> Some False)
         \<and> untouched (next_ref w) w (snd (moltosvg L (Some a) molSize kekulize w))"
  using moltosvg_ok[OF assms(2) assms(1) refl refl] moltosvg_frame by blast

text \<open>Benzene in the small library: kekulization raises and the drawing is returned.\<close>

theorem moltosvg_total_witness:
  "0 < next_ref demo_world
   \<and> unguarded_calls_return demo_libs (mols demo_world 0) (450, 150) True
   \<and> fst (moltosvg demo_libs (Some 0) None None demo_world) = Inr ''<svg:svg>c1ccccc1</svg:svg>''
   \<and> calls (snd (moltosvg demo_libs (Some 0) None None demo_world)) =
       [(ToBinary, None), (Chem_Mol, None), (Kekulize, Some (LibraryError ''Can't kekulize mol'')),
        (ToBinary, None), (Chem_Mol, None), (GetNumConformers, None), (Compute2DCoords, None),
        (MolDraw2DSVG, None), (DrawMolecule, None), (FinishDrawing, None), (GetDrawingText, None)]
   \<and> mols (snd (moltosvg demo_libs (Some 0) None None demo_world)) 0 = (''c1ccccc1'', False, 0)"
proof -
  have w: "0 < next_ref demo_world" by (simp add: demo_world_def)
  have m: "mols demo_world 0 = (''c1ccccc1'', False, 0)" "calls demo_world = []"
    by (simp_all add: demo_world_def)
  have H: "unguarded_calls_return demo_libs (mols demo_world 0) (450, 150) True"
    unfolding m by (rule demo_calls_return)
  have H': "unguarded_calls_return demo_libs (mols demo_world 0)
      (case None of None \<Rightarrow> (450, 150) | Some sz \<Rightarrow> sz) (None \<noteq> Some False)"
    using H by simp
  show ?thesis
    using moltosvg_total[OF w H'] w H
    by (simp add: m untouched_def drawing_text_def with_coords_def drawn_copy_def
        kekulized_or_fresh_def fresh_copy_def moltosvg_calls_def kekulize_calls_def demo_libs_def)
qed

text \<open>
  C10, as amended. The image-directory setup of cell In [13]: \<^verbatim>\<open>os.mkdir\<close> is called only
  when \<^verbatim>\<open>os.path.exists\<close> says that \<^verbatim>\<open>images\<close> does not exist; when it exists, every file is
  left exactly as it was. When a run of the setup has returned, a second run returns
  as well and changes nothing but the record of its one call, \<^verbatim>\<open>os.path.exists\<close>: no
  \<^verbatim>\<open>FileExistsError\<close> is raised.
\<close>

theorem cell13_idempotent:
  assumes "cell13 L w = (r, w1)" and "cell13 L w1 = (r', w2)"
  shows "(exists_at (files w) [''images''] \<longrightarrow>
            r = Inr () \<and> files w1 = files w \<and> calls w1 = calls w @ [(Os_path_exists, None)])
         \<and> (\<not> exists_at (files w) [''images''] \<longrightarrow>
              calls w1 = calls w @ [(Os_path_exists, None), (Os_mkdir, raised r)]
              \<and> files w1 = (if r = Inr () then (files w)([''images''] \<mapsto> Dir) else files w))
         \<and> (r = Inr () \<longrightarrow>
              r' = Inr () \<and> w2 = w1\<lparr>calls := calls w1 @ [(Os_path_exists, None)]\<rparr>)"
proof -
  have "r' = Inr () \<and> w2 = w1\<lparr>calls := calls w1 @ [(Os_path_exists, None)]\<rparr>" if "r = Inr ()"
    using cell13_second[of L w w1] assms that by simp
  then show ?thesis using cell13_first[OF assms(1)] by blast
qed

text \<open>A session without the directory: the first run creates it, the second finds it.\<close>

theorem cell13_idempotent_witness:
  "\<not> exists_at (files demo_world) [''images'']
   \<and> fst (cell13 demo_libs demo_world) = Inr ()
   \<and> fst (cell13 demo_libs (snd (cell13 demo_libs demo_world))) = Inr ()
   \<and> files (snd (cell13 demo_libs demo_world)) = [[''images''] \<mapsto> Dir]
   \<and> files (snd (cell13 demo_libs (snd (cell13 demo_libs demo_world)))) = [[''images''] \<mapsto> Dir]
   \<and> calls (snd (cell13 demo_libs (snd (cell13 demo_libs demo_world)))) =
       [(Os_path_exists, None), (Os_mkdir, None), (Os_path_exists, None)]"
proof -
  have c: "files demo_world = Map.empty" "calls demo_world = []" by (simp_all add: demo_world_def)
  have e: "\<not> exists_at (files demo_world) [''images'']" by (simp add: c exists_at_def)
  have r: "fst (cell13 demo_libs demo_world) = Inr ()"
    by (simp add: cell13_run mkdir_images Let_def e c demo_effects)
  show ?thesis
    using cell13_idempotent[OF prod.collapse[symmetric] prod.collapse[symmetric],
        where L = demo_libs and w = demo_world] e r
    by (simp add: c raised_simps)
qed

text \<open>
  C10 as stated, for every state, fails: when \<^verbatim>\<open>images\<close> is a symbolic link to nothing,
  \<^verbatim>\<open>os.path.exists\<close> says it does not exist and \<^verbatim>\<open>os.mkdir\<close> raises \<open>FileExistsError\<close>, in the
  first run and again in the second.
\<close>

theorem cell13_dangling_link:
  "\<not> exists_at (files demo_dangling) [''images'']
   \<and> fst (cell13 demo_libs demo_dangling) = Inl FileExistsError
   \<and> fst (cell13 demo_libs (snd (cell13 demo_libs demo_dangling))) = Inl FileExistsError
   \<and> (Os_mkdir, Some FileExistsError)
       \<in> set (new_calls (cell13 demo_libs) (snd (cell13 demo_libs demo_dangling)))"
  by (simp add: new_calls_def cell13_run mkdir_images Let_def exists_at_def demo_dangling_def
      demo_world_def demo_effects)

end
